theory Spec2Isabelle
  imports Main "HOL-Library.AList"
begin

section \<open>Python strings over code points\<close>

text \<open>
  A Python \<^verbatim>\<open>str\<close> is a sequence of Unicode code points, and \<^verbatim>\<open>len\<close> counts code points.
  The literals of \<^verbatim>\<open>src/src/parser.py\<close> are Russian, so a character is modelled as its
  code point (a natural number) and a string as a list of code points. Every non-ASCII
  literal of the source is given below as a named constant, spelled out in code points,
  with its transliteration.

  The tables of whitespace, of decimal digits and of digit characters are the complete ones
  of Unicode 14.0, as in CPython 3.11. The table of lowercase forms covers Basic Latin, the
  Latin-1 Supplement and the Cyrillic letters U+0400 to U+045F; no character outside these
  blocks has a lowercase form that occurs in a literal of the source, so every test of a
  lowercased string against a literal is exact.
\<close>

type_synonym pchar = nat
type_synonym pstr = "pchar list"

definition ascii :: "string \<Rightarrow> pstr" where
  "ascii s = map of_char s"

text \<open>\<^verbatim>\<open>str.isspace\<close> of one character; also the class \<^verbatim>\<open>\s\<close> of \<^verbatim>\<open>re\<close> on \<^verbatim>\<open>str\<close> patterns.\<close>

definition isspace_c :: "pchar \<Rightarrow> bool" where
  "isspace_c c \<longleftrightarrow>
     (0x09 \<le> c \<and> c \<le> 0x0D) \<or> (0x1C \<le> c \<and> c \<le> 0x20) \<or> c = 0x85 \<or> c = 0xA0 \<or>
     c = 0x1680 \<or> (0x2000 \<le> c \<and> c \<le> 0x200A) \<or> c = 0x2028 \<or> c = 0x2029 \<or>
     c = 0x202F \<or> c = 0x205F \<or> c = 0x3000"

text \<open>
  The decimal digits (general category Nd): the ten digits of a script are consecutive code
  points, and the table lists the digit zero of each script.
\<close>

definition decimal_zeros :: "pchar list" where
  "decimal_zeros =
    [0x30, 0x660, 0x6F0, 0x7C0, 0x966, 0x9E6, 0xA66, 0xAE6,
     0xB66, 0xBE6, 0xC66, 0xCE6, 0xD66, 0xDE6, 0xE50, 0xED0,
     0xF20, 0x1040, 0x1090, 0x17E0, 0x1810, 0x1946, 0x19D0, 0x1A80,
     0x1A90, 0x1B50, 0x1BB0, 0x1C40, 0x1C50, 0xA620, 0xA8D0, 0xA900,
     0xA9D0, 0xA9F0, 0xAA50, 0xABF0, 0xFF10, 0x104A0, 0x10D30, 0x11066,
     0x110F0, 0x11136, 0x111D0, 0x112F0, 0x11450, 0x114D0, 0x11650, 0x116C0,
     0x11730, 0x118E0, 0x11950, 0x11C50, 0x11D50, 0x11DA0, 0x16A60, 0x16AC0,
     0x16B50, 0x1D7CE, 0x1D7D8, 0x1D7E2, 0x1D7EC, 0x1D7F6, 0x1E140, 0x1E2F0,
     0x1E950, 0x1FBF0]"

text \<open>The class \<^verbatim>\<open>\d\<close> of \<^verbatim>\<open>re\<close> on \<^verbatim>\<open>str\<close> patterns, and \<^verbatim>\<open>str.isdecimal\<close> of one character.\<close>

definition decimal_c :: "pchar \<Rightarrow> bool" where
  "decimal_c c \<longleftrightarrow> list_ex (\<lambda>z. z \<le> c \<and> c < z + 10) decimal_zeros"

text \<open>The value that \<^verbatim>\<open>int\<close> gives a decimal digit.\<close>

definition digit_value :: "pchar \<Rightarrow> nat" where
  "digit_value c =
     (case find (\<lambda>z. z \<le> c \<and> c < z + 10) decimal_zeros of Some z \<Rightarrow> c - z | None \<Rightarrow> 0)"

text \<open>
  The characters of numeric type Digit that are not decimal digits (superscripts,
  subscripts, circled digits and the like), as ranges: \<^verbatim>\<open>str.isdigit\<close> accepts them and
  \<^verbatim>\<open>int\<close> rejects them.
\<close>

definition other_digits :: "(pchar \<times> pchar) list" where
  "other_digits =
    [(0xB2, 0xB3), (0xB9, 0xB9), (0x1369, 0x1371), (0x19DA, 0x19DA),
     (0x2070, 0x2070), (0x2074, 0x2079), (0x2080, 0x2089), (0x2460, 0x2468),
     (0x2474, 0x247C), (0x2488, 0x2490), (0x24EA, 0x24EA), (0x24F5, 0x24FD),
     (0x24FF, 0x24FF), (0x2776, 0x277E), (0x2780, 0x2788), (0x278A, 0x2792),
     (0x10A40, 0x10A43), (0x10E60, 0x10E68), (0x11052, 0x1105A), (0x1F100, 0x1F10A)]"

text \<open>\<^verbatim>\<open>str.isdigit\<close> of one character\<close>

definition isdigit_c :: "pchar \<Rightarrow> bool" where
  "isdigit_c c \<longleftrightarrow> decimal_c c \<or> list_ex (\<lambda>(lo, hi). lo \<le> c \<and> c \<le> hi) other_digits"

definition lower_c :: "pchar \<Rightarrow> pchar" where
  "lower_c c =
     (if 0x41 \<le> c \<and> c \<le> 0x5A then c + 0x20
      else if 0xC0 \<le> c \<and> c \<le> 0xDE \<and> c \<noteq> 0xD7 then c + 0x20
      else if 0x400 \<le> c \<and> c \<le> 0x40F then c + 0x50
      else if 0x410 \<le> c \<and> c \<le> 0x42F then c + 0x20
      else c)"

definition py_lower :: "pstr \<Rightarrow> pstr" where
  "py_lower s = map lower_c s"

text \<open>\<^verbatim>\<open>s.strip()\<close>\<close>

definition py_strip :: "pstr \<Rightarrow> pstr" where
  "py_strip s = rev (dropWhile isspace_c (rev (dropWhile isspace_c s)))"

text \<open>\<^verbatim>\<open>s.replace('\n', ' ')\<close>\<close>

definition replace_newline :: "pstr \<Rightarrow> pstr" where
  "replace_newline s = map (\<lambda>c. if c = 0x0A then 0x20 else c) s"

text \<open>
  \<^verbatim>\<open>re.IGNORECASE\<close>: a character matches a literal when their lowercase forms agree, or when
  its lowercase form is one of the further case equivalents that \<^verbatim>\<open>re\<close> keeps for the
  lowercase literal. The table has the equivalents of the Cyrillic letters (U+1C80 to
  U+1C86).
\<close>

definition case_equivalents :: "pchar \<Rightarrow> pchar list" where
  "case_equivalents lo =
     (if lo = 0x432 then [0x1C80]
      else if lo = 0x434 then [0x1C81]
      else if lo = 0x43E then [0x1C82]
      else if lo = 0x441 then [0x1C83]
      else if lo = 0x442 then [0x1C84, 0x1C85]
      else if lo = 0x44A then [0x1C86]
      else [])"

definition ci_match :: "pchar \<Rightarrow> pchar \<Rightarrow> bool" where
  "ci_match p c \<longleftrightarrow> lower_c c = lower_c p \<or> lower_c c \<in> set (case_equivalents (lower_c p))"

text \<open>\<^verbatim>\<open>s.startswith(p)\<close>, and its counterpart under \<^verbatim>\<open>re.IGNORECASE\<close>.\<close>

fun startswith :: "pstr \<Rightarrow> pstr \<Rightarrow> bool" where
  "startswith [] s = True"
| "startswith (p # ps) [] = False"
| "startswith (p # ps) (c # cs) = (p = c \<and> startswith ps cs)"

fun startswith_ci :: "pstr \<Rightarrow> pstr \<Rightarrow> bool" where
  "startswith_ci [] s = True"
| "startswith_ci (p # ps) [] = False"
| "startswith_ci (p # ps) (c # cs) = (ci_match p c \<and> startswith_ci ps cs)"

text \<open>\<^verbatim>\<open>p in s\<close> on strings\<close>

fun contains :: "pstr \<Rightarrow> pstr \<Rightarrow> bool" where
  "contains p [] = (p = [])"
| "contains p (c # cs) = (startswith p (c # cs) \<or> contains p cs)"

text \<open>\<^verbatim>\<open>s.isdigit()\<close>\<close>

definition py_isdigit :: "pstr \<Rightarrow> bool" where
  "py_isdigit s \<longleftrightarrow> s \<noteq> [] \<and> list_all isdigit_c s"

text \<open>
  \<^verbatim>\<open>int(s)\<close> on a string of decimal digits, as a \<^verbatim>\<open>\d+\<close> group is: it cannot raise.
\<close>

definition int_of_digits :: "pstr \<Rightarrow> int" where
  "int_of_digits s = int (foldl (\<lambda>a c. 10 * a + digit_value c) 0 s)"

text \<open>\<^verbatim>\<open>str(n)\<close> and \<^verbatim>\<open>f"{n}"\<close> for an integer\<close>

fun digits :: "nat \<Rightarrow> pstr" where
  "digits n = (if n < 10 then [0x30 + n] else digits (n div 10) @ [0x30 + n mod 10])"

declare digits.simps [simp del]

definition py_str_int :: "int \<Rightarrow> pstr" where
  "py_str_int n = (if n < 0 then 0x2D # digits (nat (- n)) else digits (nat n))"

section \<open>The age-group parser\<close>

text \<open>
  The Russian literals of \<^verbatim>\<open>parse_age_group\<close>:
  \<^verbatim>\<open>i bolee\<close> ("and more"), \<^verbatim>\<open>i starshe\<close> ("and older"), \<^verbatim>\<open>let\<close> ("years") and its
  prefix \<^verbatim>\<open>le\<close>.
\<close>

definition i_bolee :: pstr where
  "i_bolee = [0x438, 0x20, 0x431, 0x43E, 0x43B, 0x435, 0x435]"

definition i_starshe :: pstr where
  "i_starshe = [0x438, 0x20, 0x441, 0x442, 0x430, 0x440, 0x448, 0x435]"

definition let_word :: pstr where
  "let_word = [0x43B, 0x435, 0x442]"

definition le_word :: pstr where
  "le_word = [0x43B, 0x435]"

text \<open>The class \<^verbatim>\<open>[-\<dots>]\<close> of the range pattern: hyphen, en dash U+2013, em dash U+2014.\<close>

definition is_dash :: "pchar \<Rightarrow> bool" where
  "is_dash c \<longleftrightarrow> c = 0x2D \<or> c = 0x2013 \<or> c = 0x2014"

text \<open>
  \<^verbatim>\<open>re.match\<close> anchors at the start of the string. In the three patterns every greedy
  quantifier is followed by something that no character of its own class can start
  (a digit is never whitespace, a dash or a letter; whitespace is never a digit, a dash or
  a letter), so giving characters back never turns a failure into a match, and each
  quantifier takes the longest run. Each matcher returns the groups the source reads.
\<close>

text \<open>\<^verbatim>\<open>re.match(r'(\d+)\s*(i bolee|i starshe|\+)', s, re.IGNORECASE)\<close>, group 1\<close>

definition match_older :: "pstr \<Rightarrow> pstr option" where
  "match_older s =
     (let g1 = takeWhile decimal_c s;
          r = dropWhile isspace_c (dropWhile decimal_c s)
      in if g1 \<noteq> [] \<and> (startswith_ci i_bolee r \<or> startswith_ci i_starshe r \<or> startswith [0x2B] r)
         then Some g1 else None)"

text \<open>\<^verbatim>\<open>re.match(r'(\d+)\s*[-\<dots>]\s*(\d+)', s)\<close>, groups 1 and 2\<close>

definition match_range :: "pstr \<Rightarrow> (pstr \<times> pstr) option" where
  "match_range s =
     (let g1 = takeWhile decimal_c s;
          r = dropWhile isspace_c (dropWhile decimal_c s)
      in case r of
           [] \<Rightarrow> None
         | d # r' \<Rightarrow>
             (let g2 = takeWhile decimal_c (dropWhile isspace_c r')
              in if g1 \<noteq> [] \<and> is_dash d \<and> g2 \<noteq> [] then Some (g1, g2) else None))"

text \<open>\<^verbatim>\<open>$\<close> matches at the end of the string and before a newline that ends it.\<close>

definition at_end :: "pstr \<Rightarrow> bool" where
  "at_end r \<longleftrightarrow> r = [] \<or> r = [0x0A]"

text \<open>\<^verbatim>\<open>re.match(r'(\d+)\s*(let?)?$', s)\<close>, group 1\<close>

definition match_single :: "pstr \<Rightarrow> pstr option" where
  "match_single s =
     (let g1 = takeWhile decimal_c s;
          r = dropWhile isspace_c (dropWhile decimal_c s)
      in if g1 \<noteq> [] \<and>
            ((startswith let_word r \<and> at_end (drop 3 r)) \<or>
             (startswith le_word r \<and> at_end (drop 2 r)) \<or>
             at_end r)
         then Some g1 else None)"

definition parse_age_group :: "pstr \<Rightarrow> (int \<times> int) option" where
  "parse_age_group age_str0 =
     (let age_str = py_strip age_str0 in
      case match_older age_str of
        Some g1 \<Rightarrow> Some (int_of_digits g1, 120)
      | None \<Rightarrow>
          (case match_range age_str of
             Some (g1, g2) \<Rightarrow> Some (int_of_digits g1, int_of_digits g2)
           | None \<Rightarrow>
               (case match_single age_str of
                  Some g1 \<Rightarrow> Some (int_of_digits g1, int_of_digits g1)
                | None \<Rightarrow> None)))"

text \<open>
  The suffixes of the open-ended pattern: the two phrases in any letter case, or a plus sign.
\<close>

definition older_suffix :: "pstr \<Rightarrow> bool" where
  "older_suffix suf \<longleftrightarrow> py_lower suf = i_bolee \<or> py_lower suf = i_starshe \<or> suf = [0x2B]"

section \<open>The year-range calculator\<close>

definition calculate_year_range :: "int \<Rightarrow> int \<Rightarrow> int \<Rightarrow> pstr" where
  "calculate_year_range lower_age upper_age base_year =
     (let upper_year = base_year - lower_age;
          lower_year = base_year - upper_age
      in ascii ''('' @ py_str_int lower_year @ ascii '', '' @ py_str_int upper_year @ ascii '')'')"

section \<open>Rows of a workbook\<close>

text \<open>
  \<^verbatim>\<open>pd.read_excel(filepath, header=None, sheet_name=0, dtype=str)\<close> yields rows of cells;
  a cell is a string or missing (\<^verbatim>\<open>NaN\<close>, here \<open>None\<close>). Reading can fail, so the
  outcome of the read is \<open>py_error + row list\<close>. The errors are the exceptions the two
  scanners can meet.
\<close>

datatype py_error = FileNotFoundError | ReadError | IndexError | ValueError | KeyError

type_synonym cell = "pstr option"
type_synonym row = "cell list"

text \<open>\<^verbatim>\<open>str(v).replace('\n', ' ').strip() if pd.notna(v) else None\<close>\<close>

definition clean_cell :: "cell \<Rightarrow> cell" where
  "clean_cell v = map_option (\<lambda>s. py_strip (replace_newline s)) v"

definition row_values :: "row \<Rightarrow> row" where
  "row_values r = map clean_cell r"

text \<open>\<^verbatim>\<open>str(v).strip() if pd.notna(v) else None\<close>, the cleaning of the lookahead row\<close>

definition next_row_values :: "row \<Rightarrow> row" where
  "next_row_values r = map (map_option py_strip) r"

text \<open>The truth value of an optional string: \<^verbatim>\<open>None\<close> and \<^verbatim>\<open>''\<close> are false.\<close>

definition truthy :: "cell \<Rightarrow> bool" where
  "truthy v = (case v of None \<Rightarrow> False | Some s \<Rightarrow> s \<noteq> [])"

text \<open>\<^verbatim>\<open>v and P(v)\<close> as a truth value\<close>

definition truthy_and :: "cell \<Rightarrow> (pstr \<Rightarrow> bool) \<Rightarrow> bool" where
  "truthy_and v P = (case v of None \<Rightarrow> False | Some s \<Rightarrow> s \<noteq> [] \<and> P s)"

text \<open>\<^verbatim>\<open>v or ''\<close>\<close>

definition or_empty :: "cell \<Rightarrow> pstr" where
  "or_empty v = (case v of None \<Rightarrow> [] | Some s \<Rightarrow> s)"

text \<open>\<^verbatim>\<open>s.split(sep)\<close> for a one-character separator; the result is never empty.\<close>

fun py_split :: "pchar \<Rightarrow> pstr \<Rightarrow> pstr list" where
  "py_split sep [] = [[]]"
| "py_split sep (c # cs) =
     (if c = sep then [] # py_split sep cs
      else (case py_split sep cs of [] \<Rightarrow> [[c]] | p # ps \<Rightarrow> (c # p) # ps))"

text \<open>\<^verbatim>\<open>s.split()\<close>: the maximal runs of non-whitespace; empty for a blank string.\<close>

fun split_ws_acc :: "pstr \<Rightarrow> pstr \<Rightarrow> pstr list" where
  "split_ws_acc cur [] = (if cur = [] then [] else [rev cur])"
| "split_ws_acc cur (c # cs) =
     (if isspace_c c
      then (if cur = [] then split_ws_acc [] cs else rev cur # split_ws_acc [] cs)
      else split_ws_acc (c # cur) cs)"

definition py_split_ws :: "pstr \<Rightarrow> pstr list" where
  "py_split_ws s = split_ws_acc [] s"

text \<open>
  \<^verbatim>\<open>int(s)\<close> on a string without sign, blanks or underscores, as the strings that passed
  \<^verbatim>\<open>isdigit\<close> are: a superscript digit passes \<^verbatim>\<open>isdigit\<close> and makes \<^verbatim>\<open>int\<close> raise.
  The interpreter's optional limit on the length of a decimal string is not modelled.
\<close>

definition py_int :: "pstr \<Rightarrow> py_error + int" where
  "py_int s = (if s \<noteq> [] \<and> list_all decimal_c s then Inr (int_of_digits s) else Inl ValueError)"

section \<open>The nationality scanner\<close>

text \<open>
  The Russian literals of \<^verbatim>\<open>read_nationality_data\<close>:
  \<^verbatim>\<open>federal'nyi okrug\<close> ("federal district"),
  \<^verbatim>\<open>ukazavshie natsional'nuyu\<close> ("indicating nationality", the marker phrase), and the
  stoplist of boilerplate names:
  \<^verbatim>\<open>ukazavshie natsional'nuyu prinadlezhnost'\<close>, \<^verbatim>\<open>natsional'nost' ne ukazana\<close>,
  \<^verbatim>\<open>itogo\<close>, \<^verbatim>\<open>litsa,\<close>, \<^verbatim>\<open>ne ukazavshie natsional'nuyu\<close>, \<^verbatim>\<open>prinadlezhnost'\<close>,
  \<^verbatim>\<open>(ne perechislennye vyshe)\<close>.
\<close>

definition federalnyi_okrug :: pstr where
  "federalnyi_okrug =
     [0x444, 0x435, 0x434, 0x435, 0x440, 0x430, 0x43B, 0x44C, 0x43D, 0x44B, 0x439, 0x20,
      0x43E, 0x43A, 0x440, 0x443, 0x433]"

definition ukazavshie_natsionalnuyu :: pstr where
  "ukazavshie_natsionalnuyu =
     [0x443, 0x43A, 0x430, 0x437, 0x430, 0x432, 0x448, 0x438, 0x435, 0x20,
      0x43D, 0x430, 0x446, 0x438, 0x43E, 0x43D, 0x430, 0x43B, 0x44C, 0x43D, 0x443, 0x44E]"

definition prinadlezhnost :: pstr where
  "prinadlezhnost =
     [0x43F, 0x440, 0x438, 0x43D, 0x430, 0x434, 0x43B, 0x435, 0x436, 0x43D, 0x43E, 0x441,
      0x442, 0x44C]"

definition stoplist :: "pstr list" where
  "stoplist =
     [ukazavshie_natsionalnuyu @ [0x20] @ prinadlezhnost,
      [0x43D, 0x430, 0x446, 0x438, 0x43E, 0x43D, 0x430, 0x43B, 0x44C, 0x43D, 0x43E, 0x441,
       0x442, 0x44C, 0x20, 0x43D, 0x435, 0x20, 0x443, 0x43A, 0x430, 0x437, 0x430, 0x43D, 0x430],
      [0x438, 0x442, 0x43E, 0x433, 0x43E],
      [0x43B, 0x438, 0x446, 0x430, 0x2C],
      [0x43D, 0x435, 0x20] @ ukazavshie_natsionalnuyu,
      prinadlezhnost,
      [0x28, 0x43D, 0x435, 0x20, 0x43F, 0x435, 0x440, 0x435, 0x447, 0x438, 0x441, 0x43B,
       0x435, 0x43D, 0x43D, 0x44B, 0x435, 0x20, 0x432, 0x44B, 0x448, 0x435, 0x29]]"

datatype scan_state =
  STATE_SEARCHING_FO | STATE_SEARCHING_REGION | STATE_SEARCHING_NATION_MARKER | STATE_READING_NATIONS

text \<open>
  A Python \<^verbatim>\<open>dict\<close> is an association list in insertion order: \<open>map_of\<close> looks a key up
  and \<open>AList.update\<close> stores a value (in place for a known key, at the end for a new one).
\<close>

type_synonym nations = "(pstr \<times> int) list"
type_synonym nationality_data = "(pstr \<times> (int \<times> nations)) list"

record nat_scanner =
  n_data :: nationality_data
  n_current_region :: "pstr option"
  n_total_population :: "int option"
  n_last_federal_district :: "pstr option"
  n_state :: scan_state

definition nat_init :: nat_scanner where
  "nat_init = \<lparr>n_data = [], n_current_region = None, n_total_population = None,
                n_last_federal_district = None, n_state = STATE_SEARCHING_FO\<rparr>"

definition is_federal_district_row :: "cell \<Rightarrow> cell \<Rightarrow> bool" where
  "is_federal_district_row col_b col_c \<longleftrightarrow>
     truthy_and col_b (\<lambda>b. contains federalnyi_okrug (py_lower b)) \<or>
     truthy_and col_c (\<lambda>c. contains federalnyi_okrug (py_lower c))"

text \<open>\<^verbatim>\<open>col_a and col_a.split('.')[0].isdigit()\<close>\<close>

definition has_index :: "cell \<Rightarrow> bool" where
  "has_index col_a = truthy_and col_a (\<lambda>a. py_isdigit (hd (py_split 0x2E a)))"

definition is_potential_region :: "cell \<Rightarrow> cell \<Rightarrow> cell \<Rightarrow> cell \<Rightarrow> bool" where
  "is_potential_region col_a col_b col_c col_d \<longleftrightarrow>
     has_index col_a \<and>
     col_b = None \<and>
     truthy col_c \<and>
     truthy_and col_d py_isdigit \<and>
     truthy_and col_c (\<lambda>c. \<not> contains federalnyi_okrug (py_lower c)) \<and>
     truthy_and col_c (\<lambda>c. \<not> contains ukazavshie_natsionalnuyu (py_lower c)) \<and>
     truthy_and col_c (\<lambda>c. 3 < length c)"

definition is_potential_nationality :: "pstr option \<Rightarrow> cell \<Rightarrow> cell \<Rightarrow> cell \<Rightarrow> bool" where
  "is_potential_nationality current_region col_a col_c col_d \<longleftrightarrow>
     truthy current_region \<and>
     has_index col_a \<and>
     truthy col_c \<and>
     truthy_and col_d py_isdigit \<and>
     truthy_and col_c (\<lambda>c. py_lower c \<notin> set stoplist)"

text \<open>The branch taken for a row that is a potential region (\<open>col_c\<close> and \<open>col_d\<close> are strings there).\<close>

definition region_found :: "nat_scanner \<Rightarrow> pstr \<Rightarrow> pstr \<Rightarrow> py_error + nat_scanner" where
  "region_found s c d =
     (let region_name_cleaned = py_strip (replace_newline c) in
      if map_of (n_data s) region_name_cleaned = None
      then (case py_int d of
              Inl e \<Rightarrow> Inl e
            | Inr total_population \<Rightarrow>
                Inr (s\<lparr>n_current_region := Some region_name_cleaned,
                       n_total_population := Some total_population,
                       n_data := AList.update region_name_cleaned (total_population, []) (n_data s),
                       n_state := STATE_SEARCHING_NATION_MARKER\<rparr>))
      else Inr s)"

text \<open>The branch taken for a row that is a potential nationality.\<close>

definition nation_found :: "nat_scanner \<Rightarrow> pstr \<Rightarrow> pstr \<Rightarrow> pstr \<Rightarrow> py_error + nat_scanner" where
  "nation_found s current_region c d =
     (let nation_name = py_strip (replace_newline c) in
      case py_int d of
        Inl e \<Rightarrow> Inl e
      | Inr nation_pop \<Rightarrow>
          if 0 < nation_pop
          then (case map_of (n_data s) current_region of
                  Some (region_total, region_nations) \<Rightarrow>
                    Inr (s\<lparr>n_data := AList.update current_region
                                        (region_total, AList.update nation_name nation_pop region_nations)
                                        (n_data s)\<rparr>)
                | None \<Rightarrow> Inr s)
          else Inr s)"

text \<open>One iteration of the loop over the rows.\<close>

definition nationality_row :: "nat_scanner \<Rightarrow> row \<Rightarrow> py_error + nat_scanner" where
  "nationality_row s r =
     (let rv = row_values r in
      if length rv < 4 then Inl IndexError
      else
        let col_a = rv ! 0; col_b = rv ! 1; col_c = rv ! 2; col_d = rv ! 3 in
        if is_federal_district_row col_b col_c
        then Inr (s\<lparr>n_last_federal_district := Some (py_strip (or_empty col_b @ [0x20] @ or_empty col_c)),
                    n_state := STATE_SEARCHING_REGION,
                    n_current_region := None\<rparr>)
        else
          (case n_state s of
             STATE_SEARCHING_FO \<Rightarrow> Inr s
           | STATE_SEARCHING_REGION \<Rightarrow>
               if is_potential_region col_a col_b col_c col_d
               then (case (col_c, col_d) of
                       (Some c, Some d) \<Rightarrow> region_found s c d
                     | _ \<Rightarrow> Inr s)
               else Inr s
           | STATE_SEARCHING_NATION_MARKER \<Rightarrow>
               if truthy (n_current_region s) \<and>
                  truthy_and col_c (\<lambda>c. contains ukazavshie_natsionalnuyu (py_lower c))
               then Inr (s\<lparr>n_state := STATE_READING_NATIONS\<rparr>)
               else Inr s
           | STATE_READING_NATIONS \<Rightarrow>
               if is_potential_nationality (n_current_region s) col_a col_c col_d
               then (case (n_current_region s, col_c, col_d) of
                       (Some cr, Some c, Some d) \<Rightarrow> nation_found s cr c d
                     | _ \<Rightarrow> Inr s)
               else if col_a = None \<and> col_c = None \<and> col_d = None
               then Inr (s\<lparr>n_state := STATE_SEARCHING_REGION, n_current_region := None\<rparr>)
               else Inr s))"

fun nationality_rows :: "nat_scanner \<Rightarrow> row list \<Rightarrow> py_error + nat_scanner" where
  "nationality_rows s [] = Inr s"
| "nationality_rows s (r # rs) =
     (case nationality_row s r of Inl e \<Rightarrow> Inl e | Inr s' \<Rightarrow> nationality_rows s' rs)"

text \<open>
  \<^verbatim>\<open>read_nationality_data\<close>, given the outcome of reading the workbook: both \<^verbatim>\<open>except\<close>
  clauses return the empty dictionary.
\<close>

definition read_nationality_data :: "py_error + row list \<Rightarrow> nationality_data" where
  "read_nationality_data df =
     (case df of
        Inl e \<Rightarrow> []
      | Inr rows \<Rightarrow>
          (case nationality_rows nat_init rows of Inl e \<Rightarrow> [] | Inr s \<Rightarrow> n_data s))"

text \<open>
  The region-header condition in the words of the specification: column A starts with a
  digit, column B is empty, column C is non-empty, longer than 3 characters and contains
  neither phrase, and column D is a non-negative integer.
\<close>

definition region_header_spec :: "cell \<Rightarrow> cell \<Rightarrow> cell \<Rightarrow> cell \<Rightarrow> bool" where
  "region_header_spec col_a col_b col_c col_d \<longleftrightarrow>
     (case col_a of Some (a # _) \<Rightarrow> isdigit_c a | _ \<Rightarrow> False) \<and>
     col_b = None \<and>
     (case col_c of
        Some c \<Rightarrow> c \<noteq> [] \<and> 3 < length c \<and>
                  \<not> contains federalnyi_okrug (py_lower c) \<and>
                  \<not> contains ukazavshie_natsionalnuyu (py_lower c)
      | None \<Rightarrow> False) \<and>
     (case col_d of Some d \<Rightarrow> d \<noteq> [] \<and> list_all isdigit_c d | None \<Rightarrow> False)"

text \<open>
  The same condition with column A as the source tests it: the text of column A before its
  first period is a non-empty run of digits.
\<close>

definition region_header_amended :: "cell \<Rightarrow> cell \<Rightarrow> cell \<Rightarrow> cell \<Rightarrow> bool" where
  "region_header_amended col_a col_b col_c col_d \<longleftrightarrow>
     (case col_a of
        Some a \<Rightarrow> takeWhile (\<lambda>x. x \<noteq> 0x2E) a \<noteq> [] \<and>
                  list_all isdigit_c (takeWhile (\<lambda>x. x \<noteq> 0x2E) a)
      | None \<Rightarrow> False) \<and>
     col_b = None \<and>
     (case col_c of
        Some c \<Rightarrow> c \<noteq> [] \<and> 3 < length c \<and>
                  \<not> contains federalnyi_okrug (py_lower c) \<and>
                  \<not> contains ukazavshie_natsionalnuyu (py_lower c)
      | None \<Rightarrow> False) \<and>
     (case col_d of Some d \<Rightarrow> d \<noteq> [] \<and> list_all isdigit_c d | None \<Rightarrow> False)"

section \<open>The age and sex scanner\<close>

text \<open>
  The Russian literals of \<^verbatim>\<open>read_age_sex_data\<close>:
  \<^verbatim>\<open>v tom chisle\<close> ("including"), \<^verbatim>\<open>vozraste\<close> ("age") and
  \<^verbatim>\<open>gorodskoe i sel'skoe\<close> ("urban and rural").
\<close>

definition v_tom_chisle :: pstr where
  "v_tom_chisle = [0x432, 0x20, 0x442, 0x43E, 0x43C, 0x20, 0x447, 0x438, 0x441, 0x43B, 0x435]"

definition vozraste :: pstr where
  "vozraste = [0x432, 0x43E, 0x437, 0x440, 0x430, 0x441, 0x442, 0x435]"

definition gorodskoe_i_selskoe :: pstr where
  "gorodskoe_i_selskoe =
     [0x433, 0x43E, 0x440, 0x43E, 0x434, 0x441, 0x43A, 0x43E, 0x435, 0x20, 0x438, 0x20,
      0x441, 0x435, 0x43B, 0x44C, 0x441, 0x43A, 0x43E, 0x435]"

type_synonym ages = "(pstr \<times> (int \<times> int)) list"
type_synonym age_sex_data = "(pstr \<times> ages) list"

record age_scanner =
  a_data :: age_sex_data
  a_current_region :: "pstr option"
  a_reading_ages :: bool

definition age_init :: age_scanner where
  "age_init = \<lparr>a_data = [], a_current_region = None, a_reading_ages = False\<rparr>"

text \<open>
  The heuristics on the candidate cell, before the lookahead. \<^verbatim>\<open>split()[0]\<close> raises on a
  string without a token.
\<close>

definition region_heuristics :: "cell \<Rightarrow> py_error + bool" where
  "region_heuristics region_candidate =
     (case region_candidate of
        None \<Rightarrow> Inr False
      | Some rc \<Rightarrow>
          if rc = [] then Inr False
          else (case py_split_ws rc of
                  [] \<Rightarrow> Inl IndexError
                | tok # _ \<Rightarrow>
                    Inr (\<not> list_ex isdigit_c tok \<and>
                         \<not> contains v_tom_chisle (py_lower rc) \<and>
                         \<not> contains vozraste (py_lower rc) \<and>
                         parse_age_group rc = None \<and>
                         5 < length rc)))"

text \<open>
  The lookahead: \<^verbatim>\<open>index + 1 < len(df)\<close> and the cell of column D of the next row, stripped,
  contains the phrase.
\<close>

definition lookahead :: "row option \<Rightarrow> py_error + bool" where
  "lookahead nxt =
     (case nxt of
        None \<Rightarrow> Inr False
      | Some r \<Rightarrow>
          (let nrv = next_row_values r in
           if length nrv < 4 then Inl IndexError
           else Inr (truthy_and (nrv ! 3) (\<lambda>c. contains gorodskoe_i_selskoe (py_lower c)))))"

text \<open>The part of the iteration after the region test: reading the ages of the current region.\<close>

definition read_ages :: "age_scanner \<Rightarrow> row \<Rightarrow> py_error + age_scanner" where
  "read_ages s rv =
     (case a_current_region s of
        None \<Rightarrow> Inr s
      | Some current_region \<Rightarrow>
          if \<not> (a_reading_ages s \<and> current_region \<noteq> []) then Inr s
          else if length rv < 10 then Inl IndexError
          else
            let age_group_str = rv ! 3; male_str = rv ! 8; female_str = rv ! 9 in
            if truthy age_group_str \<and> truthy male_str \<and> truthy female_str \<and>
               truthy_and male_str py_isdigit \<and> truthy_and female_str py_isdigit
            then (case (age_group_str, male_str, female_str) of
                    (Some ag, Some m, Some f) \<Rightarrow>
                      (case parse_age_group ag of
                         None \<Rightarrow> Inr s
                       | Some age_bounds \<Rightarrow>
                           (case py_int m of
                              Inl e \<Rightarrow> Inl e
                            | Inr males \<Rightarrow>
                                (case py_int f of
                                   Inl e \<Rightarrow> Inl e
                                 | Inr females \<Rightarrow>
                                     (case map_of (a_data s) current_region of
                                        None \<Rightarrow> Inl KeyError
                                      | Some region_ages \<Rightarrow>
                                          Inr (s\<lparr>a_data := AList.update current_region
                                                 (AList.update ag (males, females) region_ages)
                                                 (a_data s)\<rparr>)))))
                  | _ \<Rightarrow> Inr s)
            else if age_group_str = None \<and> male_str = None \<and> female_str = None
            then (case map_of (a_data s) current_region of
                    None \<Rightarrow> Inl KeyError
                  | Some region_ages \<Rightarrow>
                      if region_ages \<noteq> []
                      then Inr (s\<lparr>a_reading_ages := False, a_current_region := None\<rparr>)
                      else Inr s)
            else Inr s)"

text \<open>One iteration of the loop; \<open>nxt\<close> is the following row, if there is one.\<close>

definition age_row :: "age_scanner \<Rightarrow> row \<Rightarrow> row option \<Rightarrow> py_error + age_scanner" where
  "age_row s r nxt =
     (let rv = row_values r in
      if length rv < 4 then Inl IndexError
      else
        let region_candidate = rv ! 3 in
        case region_heuristics region_candidate of
          Inl e \<Rightarrow> Inl e
        | Inr False \<Rightarrow> read_ages s rv
        | Inr True \<Rightarrow>
            (case lookahead nxt of
               Inl e \<Rightarrow> Inl e
             | Inr False \<Rightarrow> read_ages s rv
             | Inr True \<Rightarrow>
                 (let current_region = py_strip (replace_newline (or_empty region_candidate)) in
                  Inr (s\<lparr>a_current_region := Some current_region,
                         a_data := AList.update current_region [] (a_data s),
                         a_reading_ages := True\<rparr>))))"

fun age_rows :: "age_scanner \<Rightarrow> row list \<Rightarrow> py_error + age_scanner" where
  "age_rows s [] = Inr s"
| "age_rows s (r # rs) =
     (case age_row s r (case rs of [] \<Rightarrow> None | n # _ \<Rightarrow> Some n) of
        Inl e \<Rightarrow> Inl e
      | Inr s' \<Rightarrow> age_rows s' rs)"

definition read_age_sex_data :: "py_error + row list \<Rightarrow> age_sex_data" where
  "read_age_sex_data df =
     (case df of
        Inl e \<Rightarrow> []
      | Inr rows \<Rightarrow> (case age_rows age_init rows of Inl e \<Rightarrow> [] | Inr s \<Rightarrow> a_data s))"

section \<open>Derived notions and a sample sheet\<close>

text \<open>Every stored nation count of every region is strictly positive.\<close>

definition nations_positive :: "nationality_data \<Rightarrow> bool" where
  "nations_positive d \<longleftrightarrow>
     list_all (\<lambda>(region, region_total, region_nations).
                 list_all (\<lambda>(nation, pop). 0 < pop) region_nations) d"

text \<open>A row that the federal-district test of the loop accepts.\<close>

definition is_federal_row :: "row \<Rightarrow> bool" where
  "is_federal_row r \<longleftrightarrow>
     4 \<le> length r \<and> is_federal_district_row (row_values r ! 1) (row_values r ! 2)"

text \<open>
  The rows of the end-to-end scenario. The specification writes the phrases of the source in
  English; the rows carry the phrases themselves. The federal-district row has
  \<^verbatim>\<open>Tsentral'nyi federal'nyi okrug\<close> in column B, and the marker row has
  \<^verbatim>\<open>Ukazavshie natsional'nuyu prinadlezhnost'\<close> ("indicating nationality affiliation") in
  column C.
\<close>

definition federal_row :: row where
  "federal_row =
     [None,
      Some [0x426, 0x435, 0x43D, 0x442, 0x440, 0x430, 0x43B, 0x44C, 0x43D, 0x44B, 0x439, 0x20,
            0x444, 0x435, 0x434, 0x435, 0x440, 0x430, 0x43B, 0x44C, 0x43D, 0x44B, 0x439, 0x20,
            0x43E, 0x43A, 0x440, 0x443, 0x433],
      None, None]"

definition region_row :: row where
  "region_row = [Some (ascii ''1.''), None, Some (ascii ''Sample Region''), Some (ascii ''1000'')]"

definition marker_row :: row where
  "marker_row =
     [None, None,
      Some [0x423, 0x43A, 0x430, 0x437, 0x430, 0x432, 0x448, 0x438, 0x435, 0x20,
            0x43D, 0x430, 0x446, 0x438, 0x43E, 0x43D, 0x430, 0x43B, 0x44C, 0x43D, 0x443, 0x44E,
            0x20, 0x43F, 0x440, 0x438, 0x43D, 0x430, 0x434, 0x43B, 0x435, 0x436, 0x43D, 0x43E,
            0x441, 0x442, 0x44C],
      None]"

definition russians_row :: row where
  "russians_row = [Some (ascii ''1.''), None, Some (ascii ''Russians''), Some (ascii ''800'')]"

definition tatars_row :: row where
  "tatars_row = [Some (ascii ''2.''), None, Some (ascii ''Tatars''), Some (ascii ''0'')]"

definition blank_row :: row where
  "blank_row = [None, None, None, None]"

definition sample_sheet :: "row list" where
  "sample_sheet = [federal_row, region_row, marker_row, russians_row, tatars_row, blank_row]"

text \<open>The scanner in state \<open>STATE_SEARCHING_REGION\<close> with an empty dictionary.\<close>

definition searching_region :: nat_scanner where
  "searching_region = nat_init\<lparr>n_state := STATE_SEARCHING_REGION\<rparr>"

text \<open>
  A header row is confirmed by the row after it: it satisfies the heuristics, the lookahead
  on the next row succeeds, and \<open>k\<close> is its cleaned name.
\<close>

definition confirmed_header :: "row \<Rightarrow> row \<Rightarrow> pstr \<Rightarrow> bool" where
  "confirmed_header r nr k \<longleftrightarrow>
     4 \<le> length r \<and>
     region_heuristics (row_values r ! 3) = Inr True \<and>
     lookahead (Some nr) = Inr True \<and>
     k = py_strip (replace_newline (or_empty (row_values r ! 3)))"

text \<open>
  The rows of an age and sex sheet: the header \<^verbatim>\<open>Belgorodskaya oblast'\<close>, the boilerplate row
  \<^verbatim>\<open>Gorodskoe i sel'skoe naselenie\<close>, a data row and a blank row, ten columns each.
\<close>

definition age_cells :: "cell \<Rightarrow> cell \<Rightarrow> cell \<Rightarrow> row" where
  "age_cells d i j = [None, None, None, d, None, None, None, None, i, j]"

definition belgorodskaya_oblast :: pstr where
  "belgorodskaya_oblast =
     [0x411, 0x435, 0x43B, 0x433, 0x43E, 0x440, 0x43E, 0x434, 0x441, 0x43A, 0x430, 0x44F, 0x20,
      0x43E, 0x431, 0x43B, 0x430, 0x441, 0x442, 0x44C]"

definition age_header_row :: row where
  "age_header_row = age_cells (Some belgorodskaya_oblast) None None"

definition age_boilerplate_row :: row where
  "age_boilerplate_row =
     age_cells
       (Some [0x413, 0x43E, 0x440, 0x43E, 0x434, 0x441, 0x43A, 0x43E, 0x435, 0x20, 0x438, 0x20,
              0x441, 0x435, 0x43B, 0x44C, 0x441, 0x43A, 0x43E, 0x435, 0x20, 0x43D, 0x430, 0x441,
              0x435, 0x43B, 0x435, 0x43D, 0x438, 0x435])
       (Some (ascii ''700'')) (Some (ascii ''800''))"

definition age_data_row :: row where
  "age_data_row = age_cells (Some (ascii ''0 - 4'')) (Some (ascii ''120'')) (Some (ascii ''130''))"

definition age_blank_row :: row where
  "age_blank_row = age_cells None None None"

definition age_sheet :: "row list" where
  "age_sheet = [age_header_row, age_boilerplate_row, age_data_row, age_blank_row]"

section \<open>Strings and digits\<close>

lemmas str_defs = ascii_def isspace_c_def decimal_zeros_def decimal_c_def digit_value_def other_digits_def
  isdigit_c_def lower_c_def case_equivalents_def ci_match_def py_lower_def py_strip_def
  replace_newline_def py_isdigit_def int_of_digits_def py_str_int_def i_bolee_def i_starshe_def let_word_def le_word_def
  is_dash_def at_end_def match_older_def match_range_def match_single_def parse_age_group_def

lemma ascii_digit_decimal: "k < 10 \<Longrightarrow> decimal_c (0x30 + k)"
  by (simp add: decimal_c_def decimal_zeros_def)

lemma ascii_digit_value: "k < 10 \<Longrightarrow> digit_value (0x30 + k) = k"
  by (simp add: digit_value_def decimal_zeros_def)

lemma below_digits_not_decimal: "c < 0x30 \<Longrightarrow> \<not> decimal_c c"
  by (simp add: decimal_c_def decimal_zeros_def)

lemma letters_not_decimal: "0x3A \<le> c \<Longrightarrow> c < 0x660 \<Longrightarrow> \<not> decimal_c c"
  by (simp add: decimal_c_def decimal_zeros_def)

lemma digits_decimal: "list_all decimal_c (digits n)"
proof (induction n rule: digits.induct)
  case (1 n)
  show ?case
  proof (cases "n < 10")
    case True
    then show ?thesis by (subst digits.simps) (simp add: ascii_digit_decimal)
  next
    case False
    have "decimal_c (0x30 + n mod 10)" by (rule ascii_digit_decimal) simp
    with False 1 show ?thesis by (subst digits.simps) simp
  qed
qed

lemma digits_not_Nil: "digits n \<noteq> []"
  by (subst digits.simps) simp

lemma foldl_digits: "foldl (\<lambda>a c. 10 * a + digit_value c) 0 (digits n) = n"
proof (induction n rule: digits.induct)
  case (1 n)
  show ?case
  proof (cases "n < 10")
    case True
    then show ?thesis by (subst digits.simps) (simp add: ascii_digit_value)
  next
    case False
    have "digit_value (0x30 + n mod 10) = n mod 10" by (rule ascii_digit_value) simp
    with False 1 show ?thesis by (subst digits.simps) simp
  qed
qed

lemma int_of_digits_digits: "int_of_digits (digits n) = int n"
  by (simp add: int_of_digits_def foldl_digits)

lemma int_of_digits_nonneg: "0 \<le> int_of_digits s"
  by (simp add: int_of_digits_def)

lemma space_cases:
  assumes "isspace_c c"
  shows "c \<le> 0x20 \<or> c = 0x85 \<or> c = 0xA0 \<or> c = 0x1680 \<or> (0x2000 \<le> c \<and> c \<le> 0x205F) \<or> c = 0x3000"
  using assms unfolding isspace_c_def by linarith

lemma space_not_decimal:
  assumes "isspace_c c"
  shows "\<not> decimal_c c"
proof -
  from space_cases[OF assms]
  consider "c \<le> 0x20" | "c = 0x85" | "c = 0xA0" | "c = 0x1680" | "0x2000 \<le> c \<and> c \<le> 0x205F"
    | "c = 0x3000"
    by blast
  then show ?thesis
    by cases (simp_all add: decimal_c_def decimal_zeros_def)
qed

lemma decimal_not_space: "decimal_c c \<Longrightarrow> \<not> isspace_c c"
  using space_not_decimal by blast

lemma py_strip_id:
  assumes "s \<noteq> []" "\<not> isspace_c (hd s)" "\<not> isspace_c (last s)"
  shows "py_strip s = s"
proof -
  from assms have a: "dropWhile isspace_c s = s" by (cases s) auto
  from assms have "rev s \<noteq> []" "\<not> isspace_c (hd (rev s))" by (simp_all add: hd_rev)
  then have "dropWhile isspace_c (rev s) = rev s" by (cases "rev s") auto
  with a show ?thesis by (simp add: py_strip_def)
qed

lemma run_then_rest:
  assumes "list_all P xs" "ys = [] \<or> \<not> P (hd ys)"
  shows "takeWhile P (xs @ ys) = xs" "dropWhile P (xs @ ys) = ys"
proof -
  from assms(2) have t: "takeWhile P ys = []" and d: "dropWhile P ys = ys"
    by (cases ys; auto)+
  from assms(1) have all: "\<forall>x\<in>set xs. P x" by (simp add: list_all_iff)
  show "takeWhile P (xs @ ys) = xs" using all t by simp
  show "dropWhile P (xs @ ys) = ys" using all d by simp
qed

lemma lower_c_cyr:
  "lower_c c = k \<Longrightarrow> 0x430 \<le> k \<Longrightarrow> k \<le> 0x44F \<Longrightarrow> c = k \<or> c + 0x20 = k"
  by (auto simp: lower_c_def split: if_splits)

lemma older_suffix_shape:
  assumes "older_suffix suf"
  shows "suf \<noteq> []" "\<not> decimal_c (hd suf)" "\<not> isspace_c (hd suf)" "\<not> isspace_c (last suf)"
    "startswith_ci i_bolee suf \<or> startswith_ci i_starshe suf \<or> startswith [0x2B] suf"
proof -
  consider (a) "py_lower suf = i_bolee" | (b) "py_lower suf = i_starshe" | (c) "suf = [0x2B]"
    using assms by (auto simp: older_suffix_def)
  then have "suf \<noteq> [] \<and> \<not> decimal_c (hd suf) \<and> \<not> isspace_c (hd suf) \<and> \<not> isspace_c (last suf) \<and>
    (startswith_ci i_bolee suf \<or> startswith_ci i_starshe suf \<or> startswith [0x2B] suf)"
  proof cases
    case a
    then obtain c1 c2 c3 c4 c5 c6 c7 where suf: "suf = [c1, c2, c3, c4, c5, c6, c7]"
      and l: "lower_c c1 = 0x438" "lower_c c2 = 0x20" "lower_c c3 = 0x431" "lower_c c4 = 0x43E"
        "lower_c c5 = 0x43B" "lower_c c6 = 0x435" "lower_c c7 = 0x435"
      by (auto simp: py_lower_def i_bolee_def map_eq_Cons_conv)
    from lower_c_cyr[OF l(1)] have h: "c1 = 0x438 \<or> c1 + 0x20 = 0x438" by simp
    from lower_c_cyr[OF l(7)] have t: "c7 = 0x435 \<or> c7 + 0x20 = 0x435" by simp
    have lw: "lower_c 0x438 = 0x438" "lower_c 0x20 = 0x20" "lower_c 0x431 = 0x431" "lower_c 0x43E = 0x43E"
        "lower_c 0x43B = 0x43B" "lower_c 0x435 = 0x435"
      by (simp_all add: lower_c_def)
    have "startswith_ci i_bolee suf" using l by (simp add: suf i_bolee_def lw ci_match_def)
    moreover have "\<not> decimal_c c1" using h by (intro letters_not_decimal) auto
    moreover have "\<not> isspace_c c1" using h by (auto simp: isspace_c_def)
    moreover have "\<not> isspace_c c7" using t by (auto simp: isspace_c_def)
    ultimately show ?thesis by (simp add: suf)
  next
    case b
    then obtain c1 c2 c3 c4 c5 c6 c7 c8 where suf: "suf = [c1, c2, c3, c4, c5, c6, c7, c8]"
      and l: "lower_c c1 = 0x438" "lower_c c2 = 0x20" "lower_c c3 = 0x441" "lower_c c4 = 0x442"
        "lower_c c5 = 0x430" "lower_c c6 = 0x440" "lower_c c7 = 0x448" "lower_c c8 = 0x435"
      by (auto simp: py_lower_def i_starshe_def map_eq_Cons_conv)
    from lower_c_cyr[OF l(1)] have h: "c1 = 0x438 \<or> c1 + 0x20 = 0x438" by simp
    from lower_c_cyr[OF l(8)] have t: "c8 = 0x435 \<or> c8 + 0x20 = 0x435" by simp
    have lw: "lower_c 0x438 = 0x438" "lower_c 0x20 = 0x20" "lower_c 0x441 = 0x441" "lower_c 0x442 = 0x442"
        "lower_c 0x430 = 0x430" "lower_c 0x440 = 0x440" "lower_c 0x448 = 0x448" "lower_c 0x435 = 0x435"
      by (simp_all add: lower_c_def)
    have "startswith_ci i_starshe suf" using l by (simp add: suf i_starshe_def lw ci_match_def)
    moreover have "\<not> decimal_c c1" using h by (intro letters_not_decimal) auto
    moreover have "\<not> isspace_c c1" using h by (auto simp: isspace_c_def)
    moreover have "\<not> isspace_c c8" using t by (auto simp: isspace_c_def)
    ultimately show ?thesis by (simp add: suf)
  next
    case c
    then show ?thesis by (simp add: below_digits_not_decimal isspace_c_def)
  qed
  then show "suf \<noteq> []" "\<not> decimal_c (hd suf)" "\<not> isspace_c (hd suf)" "\<not> isspace_c (last suf)"
    "startswith_ci i_bolee suf \<or> startswith_ci i_starshe suf \<or> startswith [0x2B] suf"
    by auto
qed

section \<open>Properties of the age-group parser\<close>

text \<open>
  Claim C1, for non-negative numbers: the decimal text of a natural number \<open>n\<close>, followed by
  any run of whitespace and one of the open-ended suffixes of the source (the phrases
  \<^verbatim>\<open>i bolee\<close> and \<^verbatim>\<open>i starshe\<close> in any letter case, or a plus sign), parses to the
  interval \<open>(n, 120)\<close>.
\<close>

theorem parse_age_group_open_ended:
  assumes ws: "list_all isspace_c ws" and suf: "older_suffix suf"
  shows "parse_age_group (py_str_int (int n) @ ws @ suf) = Some (int n, 120)"
proof -
  note sh = older_suffix_shape[OF suf]
  let ?s = "digits n @ ws @ suf"
  have hd_dec: "decimal_c (hd (digits n))"
    using digits_decimal[of n] digits_not_Nil[of n] by (cases "digits n") auto
  have "hd ?s = hd (digits n)" "last ?s = last suf" using digits_not_Nil sh(1) by simp_all
  then have strip: "py_strip ?s = ?s"
    using py_strip_id[of ?s] digits_not_Nil hd_dec sh(4) decimal_not_space by simp
  have rest: "ws @ suf = [] \<or> \<not> decimal_c (hd (ws @ suf))"
    using ws sh(1,2) space_not_decimal by (cases ws) auto
  have g1: "takeWhile decimal_c ?s = digits n" and r1: "dropWhile decimal_c ?s = ws @ suf"
    using run_then_rest[OF digits_decimal rest] by simp_all
  have r2: "dropWhile isspace_c (ws @ suf) = suf"
    using run_then_rest(2)[OF ws, of suf] sh(3) by simp
  have "match_older ?s = Some (digits n)"
    using sh(5) digits_not_Nil by (simp add: match_older_def g1 r1 r2)
  then show ?thesis
    by (simp add: parse_age_group_def strip py_str_int_def int_of_digits_digits)
qed

theorem parse_age_group_open_ended_witness:
  "list_all isspace_c [0x20] \<and> older_suffix i_bolee \<and>
   parse_age_group (py_str_int 85 @ [0x20] @ i_bolee) = Some (85, 120)"
proof -
  have a: "list_all isspace_c [0x20]" by (simp add: isspace_c_def)
  have b: "older_suffix i_bolee" by (simp add: older_suffix_def py_lower_def i_bolee_def lower_c_def)
  from parse_age_group_open_ended[OF a b, of 85] a b show ?thesis by simp
qed

text \<open>
  The text of a negative number starts with a minus sign, which \<^verbatim>\<open>\d+\<close> does not match:
  \<^verbatim>\<open>f"{-1} i bolee"\<close> is not recognised.
\<close>

theorem parse_age_group_negative_counterexample:
  "parse_age_group (py_str_int (- 1) @ [0x20] @ i_bolee) = None \<and>
   parse_age_group (py_str_int (- 1) @ [0x20] @ i_bolee) \<noteq> Some (- 1, 120)"
  by (simp add: str_defs digits.simps)

text \<open>The same for every negative number and every text after it.\<close>

lemma py_strip_hd:
  assumes "\<not> isspace_c c"
  shows "\<exists>t. py_strip (c # xs) = c # t"
proof -
  have "dropWhile isspace_c (c # xs) = c # xs" using assms by simp
  moreover have "dropWhile isspace_c (rev xs @ c # []) = dropWhile isspace_c (rev xs) @ [c]"
    using assms by (simp add: dropWhile_append3)
  ultimately have "py_strip (c # xs) = c # rev (dropWhile isspace_c (rev xs))"
    by (simp add: py_strip_def)
  then show ?thesis by blast
qed

lemma parse_age_group_negative:
  assumes "n < 0"
  shows "parse_age_group (py_str_int n @ rest) = None"
proof -
  have ns: "\<not> isspace_c 0x2D" by (simp add: isspace_c_def)
  have "py_str_int n @ rest = 0x2D # (digits (nat (- n)) @ rest)"
    using assms by (simp add: py_str_int_def)
  with py_strip_hd[OF ns] obtain t where t: "py_strip (py_str_int n @ rest) = 0x2D # t"
    by metis
  have "\<not> decimal_c 0x2D" by (simp add: below_digits_not_decimal)
  then have tw: "takeWhile decimal_c (0x2D # t) = []" by simp
  show ?thesis
    unfolding parse_age_group_def Let_def t match_older_def match_range_def match_single_def tw
    by (simp split: list.splits)
qed

text \<open>Facts about the dash class and about the text of a number, for the range pattern.\<close>

lemma dash_class:
  assumes "is_dash d"
  shows "\<not> decimal_c d \<and> \<not> isspace_c d \<and> lower_c d = d \<and> d \<noteq> 0x2B \<and> d \<noteq> 0x438"
proof -
  from assms consider "d = 0x2D" | "d = 0x2013" | "d = 0x2014" by (auto simp: is_dash_def)
  then show ?thesis
    by cases (simp_all add: decimal_c_def decimal_zeros_def isspace_c_def lower_c_def)
qed

lemma digits_hd_last:
  "decimal_c (hd (digits n))" "decimal_c (last (digits n))"
  using digits_decimal[of n] digits_not_Nil[of n]
  by (cases "digits n"; simp add: list_all_iff)+

lemma takeWhile_all: "list_all P xs \<Longrightarrow> takeWhile P xs = xs"
  by (induction xs) auto

text \<open>
  A range label: the text of a number, whitespace, a dash, whitespace, the text of a number.
  It is not an open-ended label, the range pattern matches it, and the groups are the two
  numbers.
\<close>

lemma parse_age_group_range:
  assumes ws1: "list_all isspace_c ws1" and ws2: "list_all isspace_c ws2" and d: "is_dash d"
  shows "parse_age_group (py_str_int (int a) @ ws1 @ [d] @ ws2 @ py_str_int (int b)) =
           Some (int a, int b)"
proof -
  note dc = dash_class[OF d]
  let ?t = "ws2 @ digits b"
  let ?s = "digits a @ ws1 @ d # ?t"
  have "hd ?s = hd (digits a)" "last ?s = last (digits b)" using digits_not_Nil by simp_all
  then have strip: "py_strip ?s = ?s"
    using py_strip_id[of ?s] digits_not_Nil digits_hd_last decimal_not_space by simp
  have rest: "ws1 @ d # ?t = [] \<or> \<not> decimal_c (hd (ws1 @ d # ?t))"
    using ws1 dc space_not_decimal by (cases ws1) auto
  have g1: "takeWhile decimal_c ?s = digits a" and r1: "dropWhile decimal_c ?s = ws1 @ d # ?t"
    using run_then_rest[OF digits_decimal rest] by simp_all
  have r2: "dropWhile isspace_c (ws1 @ d # ?t) = d # ?t"
    using run_then_rest(2)[OF ws1, of "d # ?t"] dc by simp
  have r3: "dropWhile isspace_c ?t = digits b"
    using run_then_rest(2)[OF ws2, of "digits b"] digits_hd_last(1)[of b] decimal_not_space by auto
  have g2: "takeWhile decimal_c (digits b) = digits b"
    by (rule takeWhile_all[OF digits_decimal])
  have lw: "lower_c 0x438 = 0x438" by (simp add: lower_c_def)
  have nd: "lower_c d \<noteq> 0x438" "d \<noteq> 0x2B" using dc by simp_all
  have ci: "\<not> startswith_ci i_bolee (d # ?t)" "\<not> startswith_ci i_starshe (d # ?t)"
    "\<not> startswith [0x2B] (d # ?t)"
    using nd dc by (auto simp: i_bolee_def i_starshe_def lw ci_match_def case_equivalents_def)
  have older: "match_older ?s = None"
    unfolding match_older_def Let_def g1 r1 r2 using ci by simp
  have range: "match_range ?s = Some (digits a, digits b)"
    unfolding match_range_def Let_def g1 r1 r2 using d digits_not_Nil by (simp add: r3 g2)
  have "parse_age_group ?s = Some (int a, int b)"
    unfolding parse_age_group_def Let_def strip older range
    by (simp add: int_of_digits_digits)
  then show ?thesis by (simp add: py_str_int_def)
qed

text \<open>
  Claim C2, as the code has it. The bounds of a recognised label are non-negative; the upper
  bound of an open-ended label is 120; a label that is neither open-ended nor a range gives
  equal bounds. A range label - the text of a number \<open>a\<close>, any whitespace, a hyphen, en dash
  or em dash, any whitespace, the text of a number \<open>b\<close> - gives \<open>(a, b)\<close>, the two numbers in
  textual order, for all natural numbers \<open>a\<close> and \<open>b\<close>, also when \<open>a\<close> is greater than \<open>b\<close>:
  nothing compares the bounds.
\<close>

theorem parse_age_group_bounds:
  "(parse_age_group s = Some (lo, hi) \<longrightarrow>
      0 \<le> lo \<and> 0 \<le> hi \<and>
      (match_older (py_strip s) \<noteq> None \<longrightarrow> hi = 120) \<and>
      (match_older (py_strip s) = None \<longrightarrow> match_range (py_strip s) = None \<longrightarrow> lo = hi)) \<and>
   (list_all isspace_c ws1 \<longrightarrow> list_all isspace_c ws2 \<longrightarrow> is_dash d \<longrightarrow>
      parse_age_group (py_str_int (int a) @ ws1 @ [d] @ ws2 @ py_str_int (int b)) =
        Some (int a, int b))"
proof (intro conjI impI)
  assume p: "parse_age_group s = Some (lo, hi)"
  then show "0 \<le> lo" "0 \<le> hi"
    by (auto simp: parse_age_group_def Let_def int_of_digits_nonneg split: option.splits)
  {
    assume "match_older (py_strip s) \<noteq> None"
    with p show "hi = 120"
      by (auto simp: parse_age_group_def Let_def split: option.splits)
  }
  {
    assume "match_older (py_strip s) = None" "match_range (py_strip s) = None"
    with p show "lo = hi"
      by (auto simp: parse_age_group_def Let_def split: option.splits)
  }
next
  assume "list_all isspace_c ws1" "list_all isspace_c ws2" "is_dash d"
  then show "parse_age_group (py_str_int (int a) @ ws1 @ [d] @ ws2 @ py_str_int (int b)) =
        Some (int a, int b)"
    by (rule parse_age_group_range)
qed

text \<open>
  The single age \<^verbatim>\<open>7\<close>, and the range labels of 15 and 19 around an en dash, in both orders.
\<close>

theorem parse_age_group_bounds_witness:
  "parse_age_group (ascii ''7'') = Some (7, 7) \<and>
   match_older (py_strip (ascii ''7'')) = None \<and> match_range (py_strip (ascii ''7'')) = None \<and>
   list_all isspace_c [0x20] \<and> is_dash 0x2013 \<and>
   parse_age_group (py_str_int 15 @ [0x20] @ [0x2013] @ [0x20] @ py_str_int 19) = Some (15, 19) \<and>
   parse_age_group (py_str_int 19 @ [0x20] @ [0x2013] @ [0x20] @ py_str_int 15) = Some (19, 15)"
proof -
  have a: "parse_age_group (ascii ''7'') = Some (7, 7)" by (simp add: str_defs)
  have b: "match_older (py_strip (ascii ''7'')) = None" "match_range (py_strip (ascii ''7'')) = None"
    by (simp_all add: str_defs)
  have c: "list_all isspace_c [0x20]" by (simp add: isspace_c_def)
  have d: "is_dash 0x2013" by (simp add: is_dash_def)
  from parse_age_group_bounds[of "ascii ''7''" 7 7 "[0x20]" "[0x20]" "0x2013" 15 19]
    parse_age_group_bounds[of "ascii ''7''" 7 7 "[0x20]" "[0x20]" "0x2013" 19 15] a b c d
  show ?thesis by simp
qed

text \<open>The range label \<^verbatim>\<open>50-13\<close> gives a lower bound above the upper bound.\<close>

theorem parse_age_group_range_counterexample:
  "parse_age_group (ascii ''50-13'') = Some (50, 13) \<and> \<not> (50::int) \<le> 13"
  by (simp add: str_defs)

section \<open>Properties of the year-range calculator\<close>

text \<open>
  Claim C3: for all integers the result is the text
  \<^verbatim>\<open>(base_year - upper_age, base_year - lower_age)\<close>, and the two examples of the
  specification evaluate as stated.
\<close>

theorem calculate_year_range_format:
  "calculate_year_range lower_age upper_age base_year =
     ascii ''('' @ py_str_int (base_year - upper_age) @ ascii '', '' @
     py_str_int (base_year - lower_age) @ ascii '')'' \<and>
   calculate_year_range 0 4 2010 = ascii ''(2006, 2010)'' \<and>
   calculate_year_range 85 120 2010 = ascii ''(1890, 1925)''"
proof -
  have general: "calculate_year_range lower_age upper_age base_year =
     ascii ''('' @ py_str_int (base_year - upper_age) @ ascii '', '' @
     py_str_int (base_year - lower_age) @ ascii '')''"
    by (simp add: calculate_year_range_def)
  have first: "calculate_year_range 0 4 2010 = ascii ''(2006, 2010)''"
    by (simp add: calculate_year_range_def ascii_def py_str_int_def digits.simps)
  have second: "calculate_year_range 85 120 2010 = ascii ''(1890, 1925)''"
    by (simp add: calculate_year_range_def ascii_def py_str_int_def digits.simps)
  from general first second show ?thesis by blast
qed

section \<open>Rows and columns\<close>

lemmas scan_defs = clean_cell_def row_values_def next_row_values_def truthy_def truthy_and_def or_empty_def
  py_int_def federalnyi_okrug_def ukazavshie_natsionalnuyu_def prinadlezhnost_def stoplist_def
  is_federal_district_row_def has_index_def is_potential_region_def is_potential_nationality_def
  region_found_def nation_found_def nationality_row_def

lemmas sheet_defs = federal_row_def region_row_def marker_row_def
  russians_row_def tatars_row_def blank_row_def sample_sheet_def
  searching_region_def nat_init_def

lemma py_split_not_Nil: "py_split sep a \<noteq> []"
  by (induction a) (auto split: list.splits)

lemma hd_py_split: "hd (py_split sep a) = takeWhile (\<lambda>x. x \<noteq> sep) a"
  by (induction a) (auto simp: py_split_not_Nil split: list.splits)

lemma potential_region_iff:
  "is_potential_region col_a col_b col_c col_d \<longleftrightarrow> region_header_amended col_a col_b col_c col_d"
  unfolding is_potential_region_def region_header_amended_def has_index_def truthy_and_def
    truthy_def py_isdigit_def hd_py_split
  by (auto split: option.splits)

lemma potential_region_not_federal:
  "is_potential_region col_a col_b col_c col_d \<Longrightarrow> \<not> is_federal_district_row col_b col_c"
  unfolding is_potential_region_def is_federal_district_row_def truthy_and_def
  by (auto split: option.splits)

lemma potential_region_cols:
  "is_potential_region col_a col_b col_c col_d \<Longrightarrow> \<exists>c d. col_c = Some c \<and> col_d = Some d"
  unfolding is_potential_region_def truthy_and_def truthy_def
  by (auto split: option.splits)

lemma nationality_row_cols:
  assumes "row_values r = col_a # col_b # col_c # col_d # rest_cols"
  shows "nationality_row s r =
     (if is_federal_district_row col_b col_c
      then Inr (s\<lparr>n_last_federal_district := Some (py_strip (or_empty col_b @ [0x20] @ or_empty col_c)),
                  n_state := STATE_SEARCHING_REGION, n_current_region := None\<rparr>)
      else
        (case n_state s of
           STATE_SEARCHING_FO \<Rightarrow> Inr s
         | STATE_SEARCHING_REGION \<Rightarrow>
             if is_potential_region col_a col_b col_c col_d
             then (case (col_c, col_d) of (Some c, Some d) \<Rightarrow> region_found s c d | _ \<Rightarrow> Inr s)
             else Inr s
         | STATE_SEARCHING_NATION_MARKER \<Rightarrow>
             if truthy (n_current_region s) \<and>
                truthy_and col_c (\<lambda>c. contains ukazavshie_natsionalnuyu (py_lower c))
             then Inr (s\<lparr>n_state := STATE_READING_NATIONS\<rparr>)
             else Inr s
         | STATE_READING_NATIONS \<Rightarrow>
             if is_potential_nationality (n_current_region s) col_a col_c col_d
             then (case (n_current_region s, col_c, col_d) of
                     (Some cr, Some c, Some d) \<Rightarrow> nation_found s cr c d
                   | _ \<Rightarrow> Inr s)
             else if col_a = None \<and> col_c = None \<and> col_d = None
             then Inr (s\<lparr>n_state := STATE_SEARCHING_REGION, n_current_region := None\<rparr>)
             else Inr s))"
proof -
  have n: "row_values r ! 0 = col_a" "row_values r ! 1 = col_b" "row_values r ! 2 = col_c"
    "row_values r ! 3 = col_d" "(length (row_values r) < 4) = False"
    by (simp_all add: assms)
  show ?thesis unfolding nationality_row_def Let_def n by (simp only: if_False)
qed

lemma nationality_row_short: "length r < 4 \<Longrightarrow> nationality_row s r = Inl IndexError"
  by (simp add: nationality_row_def row_values_def)

lemma row_values_cols:
  assumes "4 \<le> length r"
  shows "\<exists>rest_cols. row_values r = (row_values r ! 0) # (row_values r ! 1) # (row_values r ! 2) # (row_values r ! 3) # rest_cols"
proof -
  from assms obtain a b c d rest_cols where "r = a # b # c # d # rest_cols"
    by (cases r; simp; rename_tac x xs; case_tac xs; simp; rename_tac y ys; case_tac ys; simp;
        rename_tac z zs; case_tac zs; simp)
  then show ?thesis by (simp add: row_values_def)
qed

section \<open>Properties of the nationality scanner\<close>

text \<open>
  Claim C4: on the six rows of the scenario - the federal-district row, the region row
  \<^verbatim>\<open>("1.", None, "Sample Region", "1000")\<close>, the marker row, the nation rows
  \<^verbatim>\<open>("1.", None, "Russians", "800")\<close> and \<^verbatim>\<open>("2.", None, "Tatars", "0")\<close>, and a blank row -
  the scanner returns exactly one region, \<^verbatim>\<open>Sample Region\<close>, with total 1000 and the single
  nation \<^verbatim>\<open>Russians\<close> with count 800; the row of \<^verbatim>\<open>Tatars\<close> with count 0 is dropped.
\<close>

theorem sample_sheet_result:
  "read_nationality_data (Inr sample_sheet) =
     [(ascii ''Sample Region'', (1000, [(ascii ''Russians'', 800)]))]"
  by (simp add: read_nationality_data_def sheet_defs scan_defs str_defs Let_def)

text \<open>
  Claim C5, with column A as the code tests it. In state \<open>STATE_SEARCHING_REGION\<close> the test
  \<open>is_potential_region\<close> of the loop holds exactly when: the text of column A before its first
  period is a non-empty run of digits, column B is missing, column C is a non-empty string
  longer than 3 characters that contains neither the federal-district phrase nor the marker
  phrase, and column D is a non-empty run of digits. A row that passes takes the region
  branch; a row that fails, and is not a federal-district row, leaves the scanner as it was.
\<close>

theorem region_header_accepted:
  assumes "n_state s = STATE_SEARCHING_REGION"
    and "row_values r = col_a # col_b # col_c # col_d # rest_cols"
  shows "(is_potential_region col_a col_b col_c col_d \<longleftrightarrow>
            region_header_amended col_a col_b col_c col_d) \<and>
         (region_header_amended col_a col_b col_c col_d \<longrightarrow>
            nationality_row s r = region_found s (or_empty col_c) (or_empty col_d)) \<and>
         (\<not> region_header_amended col_a col_b col_c col_d \<longrightarrow>
            \<not> is_federal_district_row col_b col_c \<longrightarrow> nationality_row s r = Inr s)"
proof (intro conjI impI)
  show "is_potential_region col_a col_b col_c col_d \<longleftrightarrow> region_header_amended col_a col_b col_c col_d"
    by (rule potential_region_iff)
next
  assume "region_header_amended col_a col_b col_c col_d"
  then have p: "is_potential_region col_a col_b col_c col_d" by (simp add: potential_region_iff)
  from potential_region_cols[OF p] obtain c d where "col_c = Some c" "col_d = Some d" by blast
  with p potential_region_not_federal[OF p] assms
  show "nationality_row s r = region_found s (or_empty col_c) (or_empty col_d)"
    by (simp add: nationality_row_cols[OF assms(2)] or_empty_def)
next
  assume "\<not> region_header_amended col_a col_b col_c col_d" "\<not> is_federal_district_row col_b col_c"
  with assms show "nationality_row s r = Inr s"
    by (simp add: nationality_row_cols[OF assms(2)] potential_region_iff)
qed

text \<open>The region row of the sample sheet passes the test and takes the region branch.\<close>

theorem region_header_accepted_witness:
  "n_state searching_region = STATE_SEARCHING_REGION \<and>
   row_values region_row =
     [Some (ascii ''1.''), None, Some (ascii ''Sample Region''), Some (ascii ''1000'')] \<and>
   region_header_amended (Some (ascii ''1.'')) None (Some (ascii ''Sample Region''))
     (Some (ascii ''1000'')) \<and>
   nationality_row searching_region region_row =
     region_found searching_region (ascii ''Sample Region'') (ascii ''1000'')"
proof -
  have a: "n_state searching_region = STATE_SEARCHING_REGION" by (simp add: sheet_defs)
  have b: "row_values region_row =
     Some (ascii ''1.'') # None # Some (ascii ''Sample Region'') # Some (ascii ''1000'') # []"
    by (simp add: sheet_defs scan_defs str_defs)
  have c: "region_header_amended (Some (ascii ''1.'')) None (Some (ascii ''Sample Region''))
     (Some (ascii ''1000''))"
    by (simp add: region_header_amended_def scan_defs str_defs)
  from region_header_accepted[OF a b] a b c show ?thesis by (simp add: or_empty_def)
qed

text \<open>
  Column A \<^verbatim>\<open>1x\<close> starts with a digit, and the row meets the other conditions in the words
  of the specification, but \<^verbatim>\<open>'1x'.split('.')[0].isdigit()\<close> is false: the row is not a
  region header and the scanner does not change.
\<close>

theorem region_header_digit_counterexample:
  "region_header_spec (Some (ascii ''1x'')) None (Some (ascii ''Sample Region''))
     (Some (ascii ''1000'')) \<and>
   \<not> is_potential_region (Some (ascii ''1x'')) None (Some (ascii ''Sample Region''))
     (Some (ascii ''1000'')) \<and>
   nationality_row searching_region
     [Some (ascii ''1x''), None, Some (ascii ''Sample Region''), Some (ascii ''1000'')] =
     Inr searching_region"
  by (simp add: region_header_spec_def sheet_defs scan_defs str_defs Let_def)

text \<open>
  Claim C6: in state \<open>STATE_SEARCHING_REGION\<close>, a row that qualifies as a region header and
  whose cleaned name is already a key of the dictionary leaves the whole scanner, and so the
  whole dictionary, unchanged.
\<close>

theorem duplicate_region_dropped:
  assumes "n_state s = STATE_SEARCHING_REGION"
    and "row_values r = col_a # col_b # Some c # col_d # rest_cols"
    and "is_potential_region col_a col_b (Some c) col_d"
    and "map_of (n_data s) (py_strip (replace_newline c)) \<noteq> None"
  shows "nationality_row s r = Inr s"
proof -
  from potential_region_cols[OF assms(3)] obtain d where d: "col_d = Some d" by blast
  from assms(4) have "region_found s c d = Inr s" by (auto simp: region_found_def)
  with assms(1,3) potential_region_not_federal[OF assms(3)] d show ?thesis
    by (simp add: nationality_row_cols[OF assms(2)])
qed

text \<open>A second row named \<^verbatim>\<open>Sample Region\<close> does not touch the entry of the first.\<close>

theorem duplicate_region_dropped_witness:
  "nationality_row
     (searching_region\<lparr>n_data := [(ascii ''Sample Region'', (1000, [(ascii ''Russians'', 800)]))]\<rparr>)
     [Some (ascii ''7.''), None, Some (ascii ''Sample Region''), Some (ascii ''555'')] =
   Inr (searching_region\<lparr>n_data := [(ascii ''Sample Region'', (1000, [(ascii ''Russians'', 800)]))]\<rparr>)"
proof -
  let ?s = "searching_region\<lparr>n_data := [(ascii ''Sample Region'', (1000, [(ascii ''Russians'', 800)]))]\<rparr>"
  let ?r = "[Some (ascii ''7.''), None, Some (ascii ''Sample Region''), Some (ascii ''555'')]"
  have a: "n_state ?s = STATE_SEARCHING_REGION" by (simp add: sheet_defs)
  have b: "row_values ?r =
     Some (ascii ''7.'') # None # Some (ascii ''Sample Region'') # Some (ascii ''555'') # []"
    by (simp add: scan_defs str_defs)
  have c: "is_potential_region (Some (ascii ''7.'')) None (Some (ascii ''Sample Region''))
     (Some (ascii ''555''))"
    by (simp add: scan_defs str_defs)
  have d: "map_of (n_data ?s) (py_strip (replace_newline (ascii ''Sample Region''))) \<noteq> None"
    by (simp add: str_defs)
  from duplicate_region_dropped[OF a b c d] show ?thesis .
qed

lemma list_all_update:
  "list_all P al \<Longrightarrow> P (k, v) \<Longrightarrow> list_all P (AList.update k v al)"
  by (induction al) auto

lemma nation_found_positive:
  assumes "nations_positive (n_data s)" "nation_found s cr c d = Inr s'"
  shows "nations_positive (n_data s')"
proof (cases "py_int d")
  case (Inl e)
  with assms show ?thesis by (simp add: nation_found_def)
next
  case (Inr pop)
  show ?thesis
  proof (cases "0 < pop \<and> map_of (n_data s) cr \<noteq> None")
    case False
    with assms Inr show ?thesis by (auto simp: nation_found_def split: option.splits if_splits)
  next
    case True
    then obtain t ns where m: "map_of (n_data s) cr = Some (t, ns)" by auto
    then have "(cr, (t, ns)) \<in> set (n_data s)" by (rule map_of_SomeD)
    with assms(1) have "list_all (\<lambda>(nation, pop). 0 < pop) ns"
      by (auto simp: nations_positive_def list_all_iff)
    then have "list_all (\<lambda>(nation, pop). 0 < pop) (AList.update (py_strip (replace_newline c)) pop ns)"
      using True by (intro list_all_update) auto
    then have "nations_positive (AList.update cr (t, AList.update (py_strip (replace_newline c)) pop ns) (n_data s))"
      using assms(1) unfolding nations_positive_def by (intro list_all_update) auto
    with assms(2) Inr True m show ?thesis by (auto simp: nation_found_def)
  qed
qed

lemma region_found_positive:
  assumes "nations_positive (n_data s)" "region_found s c d = Inr s'"
  shows "nations_positive (n_data s')"
proof -
  have "\<And>t. nations_positive (AList.update (py_strip (replace_newline c)) (t, []) (n_data s))"
    using assms(1) unfolding nations_positive_def by (intro list_all_update) auto
  with assms show ?thesis
    by (auto simp: region_found_def Let_def split: if_splits sum.splits)
qed

lemma nationality_row_positive:
  assumes "nations_positive (n_data s)" "nationality_row s r = Inr s'"
  shows "nations_positive (n_data s')"
proof (cases "length r < 4")
  case True
  with assms show ?thesis by (simp add: nationality_row_short)
next
  case False
  then obtain rest_cols where rv: "row_values r = (row_values r ! 0) # (row_values r ! 1) # (row_values r ! 2) # (row_values r ! 3) # rest_cols"
    using row_values_cols[of r] by auto
  show ?thesis
    using assms(2) assms(1) region_found_positive[OF assms(1)] nation_found_positive[OF assms(1)]
    unfolding nationality_row_cols[OF rv]
    by (auto split: if_splits scan_state.splits option.splits)
qed

lemma nationality_rows_positive:
  "nations_positive (n_data s) \<Longrightarrow> nationality_rows s rows = Inr s' \<Longrightarrow> nations_positive (n_data s')"
proof (induction rows arbitrary: s)
  case Nil
  then show ?case by simp
next
  case (Cons r rows)
  then show ?case by (auto split: sum.splits dest: nationality_row_positive)
qed

text \<open>
  Claim C7: in every dictionary that \<^verbatim>\<open>read_nationality_data\<close> returns, every stored nation
  count is strictly positive; a nation row whose count is 0 is parsed and leaves the
  scanner unchanged.
\<close>

theorem stored_nations_positive:
  "nations_positive (read_nationality_data df) \<and>
   (py_int d = Inr 0 \<longrightarrow> nation_found s cr c d = Inr s)"
proof
  have init: "nations_positive (n_data nat_init)" by (simp add: nat_init_def nations_positive_def)
  show "nations_positive (read_nationality_data df)"
    using nationality_rows_positive[OF init]
    by (auto simp: read_nationality_data_def nations_positive_def split: sum.splits)
  show "py_int d = Inr 0 \<longrightarrow> nation_found s cr c d = Inr s"
    by (simp add: nation_found_def)
qed

text \<open>The sample sheet: the count 800 is stored, the count 0 is not.\<close>

theorem stored_nations_positive_witness:
  "py_int (ascii ''0'') = Inr 0 \<and>
   nations_positive (read_nationality_data (Inr sample_sheet)) \<and>
   nation_found searching_region (ascii ''Sample Region'') (ascii ''Tatars'') (ascii ''0'') =
     Inr searching_region"
proof -
  have a: "py_int (ascii ''0'') = Inr 0" by (simp add: scan_defs str_defs)
  from stored_nations_positive[of "Inr sample_sheet" "ascii ''0''" searching_region
      "ascii ''Sample Region''" "ascii ''Tatars''"] a
  show ?thesis by simp
qed

lemma searching_fo_step:
  assumes "n_state s = STATE_SEARCHING_FO" "\<not> is_federal_row r" "4 \<le> length r"
  shows "nationality_row s r = Inr s"
proof -
  from assms(3) obtain rest_cols where rv: "row_values r = (row_values r ! 0) # (row_values r ! 1) # (row_values r ! 2) # (row_values r ! 3) # rest_cols"
    using row_values_cols[of r] by auto
  from assms show ?thesis unfolding nationality_row_cols[OF rv] by (simp add: is_federal_row_def)
qed

text \<open>
  Claim C10: rows before the first federal-district row have no effect. If none of the rows
  \<open>pre\<close> is a federal-district row, scanning \<open>pre @ rest\<close> from the initial state is scanning
  \<open>rest\<close> from the initial state (or stops with \<^verbatim>\<open>IndexError\<close> at a row of fewer than four
  columns); after \<open>pre\<close> the scanner is still in its initial state, with an empty dictionary.
\<close>

theorem no_region_before_federal_district:
  assumes "\<forall>r \<in> set pre. \<not> is_federal_row r"
  shows "nationality_rows nat_init (pre @ rest) =
           (if list_all (\<lambda>r. 4 \<le> length r) pre then nationality_rows nat_init rest
            else Inl IndexError) \<and>
         (\<forall>s. nationality_rows nat_init pre = Inr s \<longrightarrow> s = nat_init \<and> n_data s = [])"
proof -
  have st: "n_state nat_init = STATE_SEARCHING_FO" by (simp add: nat_init_def)
  have gen: "nationality_rows nat_init (pre @ xs) =
           (if list_all (\<lambda>r. 4 \<le> length r) pre then nationality_rows nat_init xs
            else Inl IndexError)" for xs
    using assms
  proof (induction pre)
    case Nil
    then show ?case by simp
  next
    case (Cons r pre)
    show ?case
    proof (cases "4 \<le> length r")
      case True
      with Cons.prems have "nationality_row nat_init r = Inr nat_init"
        by (intro searching_fo_step[OF st]) auto
      with Cons True show ?thesis by simp
    next
      case False
      then have "nationality_row nat_init r = Inl IndexError" by (simp add: nationality_row_short)
      with False show ?thesis by simp
    qed
  qed
  from gen[of "[]"] have "\<forall>s. nationality_rows nat_init pre = Inr s \<longrightarrow> s = nat_init \<and> n_data s = []"
    by (auto simp: nat_init_def split: if_splits)
  with gen[of rest] show ?thesis by blast
qed

text \<open>A region row, a marker row and a nation row before any federal-district row are ignored.\<close>

theorem no_region_before_federal_district_witness:
  "\<not> is_federal_row region_row \<and> \<not> is_federal_row marker_row \<and> \<not> is_federal_row russians_row \<and>
   nationality_rows nat_init ([region_row, marker_row, russians_row] @ [federal_row]) =
     nationality_rows nat_init [federal_row] \<and>
   nationality_rows nat_init [region_row, marker_row, russians_row] = Inr nat_init"
proof -
  have a: "\<forall>r \<in> set [region_row, marker_row, russians_row]. \<not> is_federal_row r"
    by (simp add: is_federal_row_def sheet_defs scan_defs str_defs)
  have b: "list_all (\<lambda>r. 4 \<le> length r) [region_row, marker_row, russians_row]"
    by (simp add: sheet_defs)
  from no_region_before_federal_district[OF a, of "[federal_row]"] b
  have c: "nationality_rows nat_init ([region_row, marker_row, russians_row] @ [federal_row]) =
     nationality_rows nat_init [federal_row]"
    by (simp only: if_True)
  from no_region_before_federal_district[OF a, of "[]"] b
  have "nationality_rows nat_init ([region_row, marker_row, russians_row] @ []) =
     nationality_rows nat_init []"
    by (simp only: if_True)
  then have d: "nationality_rows nat_init [region_row, marker_row, russians_row] = Inr nat_init"
    by simp
  from a c d show ?thesis by simp
qed

section \<open>Properties of the age and sex scanner\<close>

lemmas age_defs = region_heuristics_def lookahead_def read_ages_def age_row_def py_split_ws_def
  v_tom_chisle_def vozraste_def gorodskoe_i_selskoe_def age_init_def

lemmas age_sheet_defs = age_cells_def belgorodskaya_oblast_def age_header_row_def
  age_boilerplate_row_def age_data_row_def age_blank_row_def age_sheet_def

lemma age_row_short: "length r < 4 \<Longrightarrow> age_row s r nxt = Inl IndexError"
  by (simp add: age_row_def row_values_def)

lemma age_row_cols:
  assumes "row_values r = c0 # c1 # c2 # region_candidate # rest_cols"
  shows "age_row s r nxt =
     (case region_heuristics region_candidate of
        Inl e \<Rightarrow> Inl e
      | Inr False \<Rightarrow> read_ages s (row_values r)
      | Inr True \<Rightarrow>
          (case lookahead nxt of
             Inl e \<Rightarrow> Inl e
           | Inr False \<Rightarrow> read_ages s (row_values r)
           | Inr True \<Rightarrow>
               Inr (s\<lparr>a_current_region := Some (py_strip (replace_newline (or_empty region_candidate))),
                      a_data := AList.update (py_strip (replace_newline (or_empty region_candidate))) []
                                  (a_data s),
                      a_reading_ages := True\<rparr>)))"
proof -
  have n: "row_values r ! 3 = region_candidate" "(length (row_values r) < 4) = False"
    by (simp_all add: assms)
  show ?thesis unfolding age_row_def Let_def n by (simp only: if_False)
qed

lemma heuristics_True:
  assumes "region_heuristics region_candidate = Inr True"
  shows "\<exists>rc. region_candidate = Some rc \<and> rc \<noteq> [] \<and> parse_age_group rc = None"
  using assms
  by (auto simp: region_heuristics_def split: option.splits if_splits list.splits)

lemma read_ages_candidate:
  assumes "rv ! 3 = Some rc" "rc \<noteq> []" "parse_age_group rc = None" "read_ages s rv = Inr s'"
  shows "s' = s"
  using assms
  by (auto simp: read_ages_def Let_def truthy_def split: option.splits if_splits)

lemma keys_update_known:
  "map_of al k = Some v \<Longrightarrow> fst ` set (AList.update k v' al) = fst ` set al"
  by (auto simp: dom_update dest: map_of_SomeD) (metis fst_conv image_eqI map_of_SomeD)

lemma read_ages_data:
  assumes "read_ages s rv = Inr s'"
  shows "a_data s' = a_data s \<or>
         (\<exists>cr v v'. map_of (a_data s) cr = Some v \<and> a_data s' = AList.update cr v' (a_data s))"
proof (cases "a_current_region s")
  case None
  with assms show ?thesis by (simp add: read_ages_def)
next
  case (Some cr)
  show ?thesis
  proof (cases "map_of (a_data s) cr")
    case None
    with assms Some show ?thesis
      by (auto simp: read_ages_def Let_def split: option.splits if_splits sum.splits)
  next
    case (Some v)
    have "a_data s' = a_data s \<or> (\<exists>v'. a_data s' = AList.update cr v' (a_data s))"
      using assms \<open>a_current_region s = Some cr\<close> Some
      by (auto simp: read_ages_def Let_def split: option.splits if_splits sum.splits)
    with Some show ?thesis by blast
  qed
qed

lemma read_ages_keys:
  assumes "read_ages s rv = Inr s'"
  shows "fst ` set (a_data s') = fst ` set (a_data s)"
  using read_ages_data[OF assms] keys_update_known by metis

lemma age_row_keys:
  assumes "age_row s r nxt = Inr s'" "k \<in> fst ` set (a_data s')"
  shows "k \<in> fst ` set (a_data s) \<or> (\<exists>nr. nxt = Some nr \<and> confirmed_header r nr k)"
proof (cases "length r < 4")
  case True
  with assms show ?thesis by (simp add: age_row_short)
next
  case False
  then obtain c0 c1 c2 c3 rest_cols where r: "r = c0 # c1 # c2 # c3 # rest_cols"
    by (cases r; simp; rename_tac x xs; case_tac xs; simp; rename_tac y ys; case_tac ys; simp;
        rename_tac z zs; case_tac zs; simp)
  then have rv: "row_values r = clean_cell c0 # clean_cell c1 # clean_cell c2 # clean_cell c3 # map clean_cell rest_cols"
    by (simp add: row_values_def)
  have n3: "row_values r ! 3 = clean_cell c3" by (simp add: rv)
  show ?thesis
  proof (cases "region_heuristics (clean_cell c3) = Inr True \<and> lookahead nxt = Inr True")
    case True
    then obtain nr where nr: "nxt = Some nr" by (cases nxt) (auto simp: lookahead_def)
    from True assms(1) have "a_data s' = AList.update (py_strip (replace_newline (or_empty (clean_cell c3)))) [] (a_data s)"
      by (auto simp: age_row_cols[OF rv])
    with assms(2) have "k = py_strip (replace_newline (or_empty (clean_cell c3))) \<or> k \<in> fst ` set (a_data s)"
      by (auto simp: dom_update)
    moreover have "confirmed_header r nr (py_strip (replace_newline (or_empty (clean_cell c3))))"
      using True False nr by (simp add: confirmed_header_def n3)
    ultimately show ?thesis using nr by auto
  next
    case False
    with assms(1) have "read_ages s (row_values r) = Inr s'"
      by (auto simp: age_row_cols[OF rv] split: sum.splits bool.splits)
    from read_ages_keys[OF this] assms(2) show ?thesis by simp
  qed
qed

lemma age_rows_keys:
  assumes "age_rows s rows = Inr s'" "k \<in> fst ` set (a_data s')"
  shows "k \<in> fst ` set (a_data s) \<or>
         (\<exists>i. Suc i < length rows \<and> confirmed_header (rows ! i) (rows ! Suc i) k)"
  using assms
proof (induction rows arbitrary: s)
  case Nil
  then show ?case by simp
next
  case (Cons r rows)
  let ?nxt = "case rows of [] \<Rightarrow> None | n # _ \<Rightarrow> Some n"
  from Cons.prems(1) obtain s1 where s1: "age_row s r ?nxt = Inr s1" and rest: "age_rows s1 rows = Inr s'"
    by (auto split: sum.splits)
  from Cons.IH[OF rest Cons.prems(2)]
  consider (old) "k \<in> fst ` set (a_data s1)"
    | (later) i where "Suc i < length rows" "confirmed_header (rows ! i) (rows ! Suc i) k"
    by blast
  then show ?case
  proof cases
    case old
    from age_row_keys[OF s1 old] show ?thesis
    proof
      assume "k \<in> fst ` set (a_data s)"
      then show ?thesis by simp
    next
      assume "\<exists>nr. ?nxt = Some nr \<and> confirmed_header r nr k"
      then obtain nr where "?nxt = Some nr" "confirmed_header r nr k" by blast
      then have "Suc 0 < length (r # rows) \<and> confirmed_header ((r # rows) ! 0) ((r # rows) ! Suc 0) k"
        by (cases rows) auto
      then show ?thesis by blast
    qed
  next
    case later
    then have "Suc (Suc i) < length (r # rows) \<and>
       confirmed_header ((r # rows) ! Suc i) ((r # rows) ! Suc (Suc i)) k"
      by simp
    then show ?thesis by blast
  qed
qed

text \<open>The sample sheet gives one region with one age entry, keyed by the raw label.\<close>

lemma age_sheet_result:
  "read_age_sex_data (Inr age_sheet) =
     [(belgorodskaya_oblast, [(ascii ''0 - 4'', (120, 130))])]"
  by (simp add: read_age_sex_data_def age_sheet_defs age_defs scan_defs str_defs Let_def)

text \<open>
  Claim C9: a row that satisfies the region-header heuristics registers a region only when
  the lookahead on the following row succeeds. If the lookahead does not succeed (the row is
  the last one, or its successor's column D does not contain \<^verbatim>\<open>gorodskoe i sel'skoe\<close>), the
  iteration leaves the scanner, and so the dictionary, unchanged. Hence every key of the
  dictionary that \<^verbatim>\<open>read_age_sex_data\<close> returns is the cleaned name of a row that satisfies
  the heuristics and is followed by a row with the phrase.
\<close>

theorem region_needs_lookahead:
  "(row_values r = c0 # c1 # c2 # region_candidate # rest_cols \<longrightarrow>
      region_heuristics region_candidate = Inr True \<longrightarrow>
      lookahead nxt \<noteq> Inr True \<longrightarrow>
      age_row s r nxt = Inr s' \<longrightarrow> s' = s) \<and>
   lookahead None = Inr False \<and>
   (k \<in> fst ` set (read_age_sex_data (Inr rows)) \<longrightarrow>
      (\<exists>i. Suc i < length rows \<and> confirmed_header (rows ! i) (rows ! Suc i) k))"
proof (intro conjI impI)
  assume rv: "row_values r = c0 # c1 # c2 # region_candidate # rest_cols"
    and h: "region_heuristics region_candidate = Inr True"
    and l: "lookahead nxt \<noteq> Inr True"
    and step: "age_row s r nxt = Inr s'"
  from heuristics_True[OF h] obtain rc where rc: "region_candidate = Some rc" "rc \<noteq> []"
    "parse_age_group rc = None" by blast
  from step h l have "read_ages s (row_values r) = Inr s'"
    by (auto simp: age_row_cols[OF rv] split: sum.splits bool.splits)
  moreover have "row_values r ! 3 = Some rc" by (simp add: rv rc)
  ultimately show "s' = s" using rc by (intro read_ages_candidate)
next
  show "lookahead None = Inr False" by (simp add: lookahead_def)
next
  assume k: "k \<in> fst ` set (read_age_sex_data (Inr rows))"
  have "\<exists>sf. age_rows age_init rows = Inr sf \<and> k \<in> fst ` set (a_data sf)"
  proof (cases "age_rows age_init rows")
    case (Inl e)
    with k show ?thesis by (simp add: read_age_sex_data_def)
  next
    case (Inr sf)
    with k show ?thesis by (simp add: read_age_sex_data_def)
  qed
  then obtain sf where sf: "age_rows age_init rows = Inr sf" "k \<in> fst ` set (a_data sf)"
    by blast
  from age_rows_keys[OF sf] show "\<exists>i. Suc i < length rows \<and> confirmed_header (rows ! i) (rows ! Suc i) k"
    by (simp add: age_init_def)
qed

text \<open>
  The header row followed by a data row registers nothing; in the sample sheet it is followed
  by the boilerplate row and its name is the key of the result.
\<close>

theorem region_needs_lookahead_witness:
  "row_values age_header_row = age_header_row \<and>
   region_heuristics (Some belgorodskaya_oblast) = Inr True \<and>
   lookahead (Some age_data_row) = Inr False \<and>
   age_row age_init age_header_row (Some age_data_row) = Inr age_init \<and>
   belgorodskaya_oblast \<in> fst ` set (read_age_sex_data (Inr age_sheet)) \<and>
   (\<exists>i. Suc i < length age_sheet \<and>
        confirmed_header (age_sheet ! i) (age_sheet ! Suc i) belgorodskaya_oblast)"
proof -
  have rv: "row_values age_header_row =
      None # None # None # Some belgorodskaya_oblast # [None, None, None, None, None, None]"
    by (simp add: age_sheet_defs scan_defs str_defs)
  have rv': "row_values age_header_row = age_header_row"
    by (simp add: age_sheet_defs scan_defs str_defs)
  have h: "region_heuristics (Some belgorodskaya_oblast) = Inr True"
    by (simp add: age_sheet_defs age_defs str_defs)
  have l: "lookahead (Some age_data_row) = Inr False"
    by (simp add: age_sheet_defs age_defs scan_defs str_defs)
  have step: "age_row age_init age_header_row (Some age_data_row) = Inr age_init"
    by (simp add: age_sheet_defs age_defs scan_defs str_defs Let_def)
  have k: "belgorodskaya_oblast \<in> fst ` set (read_age_sex_data (Inr age_sheet))"
    by (simp add: age_sheet_result)
  from region_needs_lookahead[of age_header_row None None None "Some belgorodskaya_oblast"
      "[None, None, None, None, None, None]" "Some age_data_row" age_init age_init
      belgorodskaya_oblast age_sheet] rv h l step k
  have "\<exists>i. Suc i < length age_sheet \<and>
        confirmed_header (age_sheet ! i) (age_sheet ! Suc i) belgorodskaya_oblast"
    by blast
  with rv' h l step k show ?thesis by blast
qed

section \<open>Errors\<close>

lemma nationality_rows_short:
  "\<exists>r \<in> set rows. length r < 4 \<Longrightarrow> \<exists>e. nationality_rows s rows = Inl e"
proof (induction rows arbitrary: s)
  case Nil
  then show ?case by simp
next
  case (Cons r rows)
  show ?case
  proof (cases "nationality_row s r")
    case (Inl e)
    then show ?thesis by simp
  next
    case (Inr s1)
    then have "\<not> length r < 4" by (auto simp: nationality_row_def row_values_def)
    with Cons.prems have "\<exists>r \<in> set rows. length r < 4" by auto
    from Cons.IH[OF this, of s1] Inr show ?thesis by simp
  qed
qed

lemma age_rows_short:
  "\<exists>r \<in> set rows. length r < 4 \<Longrightarrow> \<exists>e. age_rows s rows = Inl e"
proof (induction rows arbitrary: s)
  case Nil
  then show ?case by simp
next
  case (Cons r rows)
  let ?nxt = "case rows of [] \<Rightarrow> None | n # _ \<Rightarrow> Some n"
  show ?case
  proof (cases "age_row s r ?nxt")
    case (Inl e)
    then show ?thesis by simp
  next
    case (Inr s1)
    then have "\<not> length r < 4" by (auto simp: age_row_short)
    with Cons.prems have "\<exists>r \<in> set rows. length r < 4" by auto
    from Cons.IH[OF this, of s1] Inr show ?thesis by simp
  qed
qed

text \<open>
  Claim C8: neither reader raises. When reading the workbook fails (a missing file or any
  other error) both return the empty dictionary; when the loop raises, whatever was
  accumulated is discarded and the result is the empty dictionary. In particular a row of
  fewer than four columns anywhere in the sheet empties the result of both readers.
\<close>

theorem scanners_absorb_errors:
  "read_nationality_data (Inl e) = [] \<and>
   read_age_sex_data (Inl e) = [] \<and>
   (nationality_rows nat_init rows = Inl e' \<longrightarrow> read_nationality_data (Inr rows) = []) \<and>
   (age_rows age_init rows = Inl e' \<longrightarrow> read_age_sex_data (Inr rows) = []) \<and>
   ((\<exists>r \<in> set rows. length r < 4) \<longrightarrow>
      read_nationality_data (Inr rows) = [] \<and> read_age_sex_data (Inr rows) = [])"
proof (intro conjI impI)
  show "read_nationality_data (Inl e) = []" by (simp add: read_nationality_data_def)
  show "read_age_sex_data (Inl e) = []" by (simp add: read_age_sex_data_def)
next
  assume "nationality_rows nat_init rows = Inl e'"
  then show "read_nationality_data (Inr rows) = []" by (simp add: read_nationality_data_def)
next
  assume "age_rows age_init rows = Inl e'"
  then show "read_age_sex_data (Inr rows) = []" by (simp add: read_age_sex_data_def)
next
  assume short: "\<exists>r \<in> set rows. length r < 4"
  from nationality_rows_short[OF short, of nat_init]
  show "read_nationality_data (Inr rows) = []" by (auto simp: read_nationality_data_def)
next
  assume short: "\<exists>r \<in> set rows. length r < 4"
  from age_rows_short[OF short, of age_init]
  show "read_age_sex_data (Inr rows) = []" by (auto simp: read_age_sex_data_def)
qed

text \<open>
  Two rows register \<^verbatim>\<open>Sample Region\<close>; a third row of one column raises \<^verbatim>\<open>IndexError\<close> and
  the region is discarded.
\<close>

theorem scanners_absorb_errors_witness:
  "read_nationality_data (Inr [federal_row, region_row]) = [(ascii ''Sample Region'', (1000, []))] \<and>
   length [None :: cell] < 4 \<and>
   nationality_rows nat_init [federal_row, region_row, [None]] = Inl IndexError \<and>
   read_nationality_data (Inr [federal_row, region_row, [None]]) = [] \<and>
   read_age_sex_data (Inr [federal_row, region_row, [None]]) = [] \<and>
   read_nationality_data (Inl FileNotFoundError) = [] \<and>
   read_age_sex_data (Inl FileNotFoundError) = []"
proof -
  have a: "read_nationality_data (Inr [federal_row, region_row]) =
      [(ascii ''Sample Region'', (1000, []))]"
    by (simp add: read_nationality_data_def sheet_defs scan_defs str_defs Let_def)
  have b: "\<exists>r \<in> set [federal_row, region_row, [None]]. length r < 4" by simp
  have c: "nationality_rows nat_init [federal_row, region_row, [None]] = Inl IndexError"
    by (simp add: sheet_defs scan_defs str_defs Let_def)
  from scanners_absorb_errors[of FileNotFoundError "[federal_row, region_row, [None]]" IndexError]
    a b c
  show ?thesis by simp
qed

end
